(* ===== verification/Prelude.thy ===== *)
theory Prelude
  imports Main "HOL-Library.Sublist"
begin

text \<open>
  Shared vocabulary of the call-screener development: the named collections that
  the component theories fill, the type names of the Flask request data and of the
  process environment, and generic lemmas on association lists, options and lists
  that several components use.
\<close>

section \<open>Collections\<close>

named_theorems screener_simps "equations of the screener's handlers, for simp add:"
named_theorems store_simps "equations of the shared call record's field writes"

section \<open>Types of the program's inputs\<close>

text \<open>
  A submitted HTML form (Flask's \<open>request.form\<close>, a werkzeug \<open>MultiDict\<close>) keeps its
  fields in submission order and may repeat a key; \<open>MultiDict.get\<close> returns the first
  value. It is an association list, read with \<open>map_of\<close>, which returns the first
  binding.
\<close>

type_synonym form = "(string \<times> string) list"

text \<open>The process environment read by \<open>os.environ.get\<close>.\<close>

type_synonym environ = "string \<rightharpoonup> string"

section \<open>Generic lemmas\<close>

lemma map_of_Cons_same [simp]: "map_of ((k, v) # xs) k = Some v"
  by simp

lemma map_of_Cons_other: "k' \<noteq> k \<Longrightarrow> map_of ((k, v) # xs) k' = map_of xs k'"
  by simp

lemma map_of_append_first:
  "map_of xs k = Some v \<Longrightarrow> map_of (xs @ ys) k = Some v"
  by (simp add: map_add_Some_iff)

lemma fold_append_apply: "fold f (xs @ ys) s = fold f ys (fold f xs s)"
  by simp

lemma case_option_same_Some:
  "(case x of None \<Rightarrow> d | Some v \<Rightarrow> v) = (if x = None then d else the x)"
  by (cases x) simp_all

text \<open>Lists of threads updated at one index.\<close>

lemma mem_set_update_other:
  assumes "x \<in> set xs" and "x \<noteq> xs ! i"
  shows "x \<in> set (xs[i := y])"
proof -
  from assms(1) obtain j where j: "j < length xs" "xs ! j = x"
    by (auto simp: in_set_conv_nth)
  with assms(2) have "j \<noteq> i" by auto
  with j have "xs[i := y] ! j = x" by simp
  with j show ?thesis by (metis length_list_update nth_mem)
qed

lemma list_all_update_keep:
  "list_all P xs \<Longrightarrow> P y \<Longrightarrow> list_all P (xs[i := y])"
  using set_update_subset_insert [of xs i y] by (auto simp: list_all_iff)

lemma mem_set_update_same:
  "i < length xs \<Longrightarrow> y \<in> set (xs[i := y])"
  by (simp add: set_update_memI)

end
