(* ===== verification/PyStr.thy ===== *)
theory PyStr
  imports Prelude
begin

text \<open>
  The three Python string operations the incoming-call handler calls
  (\<open>src/main.py\<close>, \<open>voice\<close>, line 22): \<open>str.startswith\<close>, the substring test
  \<open>needle in hay\<close> and \<open>str.upper\<close>. Each is written as the character-by-character
  computation it performs and then related to the library's \<open>prefix\<close> and
  \<open>sublist\<close> (HOL-Library.Sublist), the reference definitions. Characters are the
  8-bit \<open>char\<close> of HOL; \<open>py_upper\<close> is exact on ASCII, where it maps a..z to A..Z
  and leaves every other character alone (the Unicode case mapping of non-ASCII
  code points is not modelled).
\<close>

section \<open>Definitions\<close>

fun py_startswith :: "string \<Rightarrow> string \<Rightarrow> bool" where
  "py_startswith s [] = True"
| "py_startswith [] (c # cs) = False"
| "py_startswith (x # xs) (c # cs) = (x = c \<and> py_startswith xs cs)"

text \<open>\<open>py_in needle hay\<close> is Python's \<open>needle in hay\<close>: some suffix of the haystack
  starts with the needle; the empty needle is in every string.\<close>

fun py_in :: "string \<Rightarrow> string \<Rightarrow> bool" where
  "py_in needle [] = (needle = [])"
| "py_in needle (h # t) = (py_startswith (h # t) needle \<or> py_in needle t)"

text \<open>\<open>str.upper\<close> on ASCII: the table of CPython's ASCII case mapping, a..z to
  A..Z; every other character is its own upper case.\<close>

definition ascii_upper_table :: "(char \<times> char) list" where
  "ascii_upper_table = zip ''abcdefghijklmnopqrstuvwxyz'' ''ABCDEFGHIJKLMNOPQRSTUVWXYZ''"

definition py_upper_char :: "char \<Rightarrow> char" where
  "py_upper_char c = (case map_of ascii_upper_table c of None \<Rightarrow> c | Some u \<Rightarrow> u)"

definition py_upper :: "string \<Rightarrow> string" where
  "py_upper s = map py_upper_char s"

section \<open>Lemmas\<close>

lemma py_startswith_prefix: "py_startswith s p \<longleftrightarrow> prefix p s"
  by (induction s p rule: py_startswith.induct) auto

lemma py_in_sublist: "py_in n h \<longleftrightarrow> sublist n h"
  by (induction n h rule: py_in.induct) (auto simp: py_startswith_prefix sublist_Cons_right)

lemma py_upper_Nil [simp]: "py_upper [] = []"
  and py_upper_Cons [simp]: "py_upper (c # cs) = py_upper_char c # py_upper cs"
  and py_upper_append [simp]: "py_upper (xs @ ys) = py_upper xs @ py_upper ys"
  and length_py_upper [simp]: "length (py_upper s) = length s"
  by (simp_all add: py_upper_def)

lemma ascii_upper_table_distinct: "distinct (map fst ascii_upper_table)"
  by (simp add: ascii_upper_table_def)

text \<open>The upper case of a character is its image in the table, or the character
  itself when the table has no entry for it.\<close>

lemma py_upper_char_eq:
  "py_upper_char c = u \<longleftrightarrow>
   (c, u) \<in> set ascii_upper_table \<or> (c = u \<and> c \<notin> fst ` set ascii_upper_table)"
proof (cases "map_of ascii_upper_table c")
  case None
  moreover from None have "c \<notin> fst ` set ascii_upper_table"
    by (simp add: map_of_eq_None_iff)
  ultimately show ?thesis by (force simp: py_upper_char_def)
next
  case (Some v)
  then have "(c, v) \<in> set ascii_upper_table" by (rule map_of_SomeD)
  with Some ascii_upper_table_distinct show ?thesis
    by (auto simp: py_upper_char_def dest: eq_key_imp_eq_value intro: rev_image_eqI)
qed

text \<open>The words whose upper case is the marker \<open>VOIP\<close> are its sixteen case
  variants.\<close>

text \<open>\<open>needle in s.upper()\<close> for an upper-case needle is a case-insensitive
  substring test: some factor of \<open>s\<close> has that needle as its upper case.\<close>

lemma py_in_upper_iff:
  "py_in n (py_upper s) \<longleftrightarrow> (\<exists>w. sublist w s \<and> py_upper w = n)"
proof
  assume "py_in n (py_upper s)"
  then have "sublist n (map py_upper_char s)" by (simp add: py_in_sublist py_upper_def)
  then show "\<exists>w. sublist w s \<and> py_upper w = n"
    by (auto simp: py_upper_def dest!: sublist_map_rightE)
next
  assume "\<exists>w. sublist w s \<and> py_upper w = n"
  then obtain w where "sublist w s" "py_upper w = n" by blast
  then show "py_in n (py_upper s)"
    by (metis map_mono_sublist py_in_sublist py_upper_def)
qed

end
