(* ===== verification/CallState.thy ===== *)
theory CallState
  imports Prelude
begin

text \<open>
  The shared call record \<open>latest_call\<close> of \<open>src/main.py\<close> (lines 7-12): one
  process-wide dictionary with the keys \<open>from\<close>, \<open>speech\<close> and \<open>status\<close>. The
  handlers write it one key at a time (\<open>latest_call["status"] = "answered"\<close>);
  those single-key stores are the operations of the store, and every handler of
  \<open>Handlers\<close> and every thread step of \<open>Concurrency\<close> is composed of them.
\<close>

section \<open>The record and its field writes\<close>

text \<open>The status strings the source writes: \<open>"waiting"\<close>, \<open>"answered"\<close> and
  \<open>"rejected"\<close> (the comment on line 11); no other value is ever stored.\<close>

datatype call_status = Waiting | Answered | Rejected

fun status_str :: "call_status \<Rightarrow> string" where
  "status_str Waiting = ''waiting''"
| "status_str Answered = ''answered''"
| "status_str Rejected = ''rejected''"

text \<open>\<open>from\<close> and \<open>speech\<close> hold \<open>None\<close> or a string (Python's \<open>None\<close> is
  \<open>None\<close>).\<close>

record call_state =
  lc_from :: "string option"
  lc_speech :: "string option"
  lc_status :: call_status

definition latest_call_init :: call_state where
  "latest_call_init = \<lparr>lc_from = None, lc_speech = None, lc_status = Waiting\<rparr>"

definition set_from :: "string option \<Rightarrow> call_state \<Rightarrow> call_state" where
  "set_from v st = st\<lparr>lc_from := v\<rparr>"

definition set_speech :: "string option \<Rightarrow> call_state \<Rightarrow> call_state" where
  "set_speech v st = st\<lparr>lc_speech := v\<rparr>"

definition set_status :: "call_status \<Rightarrow> call_state \<Rightarrow> call_state" where
  "set_status v st = st\<lparr>lc_status := v\<rparr>"

section \<open>Lemmas\<close>

lemmas [store_simps] = set_from_def set_speech_def set_status_def

lemma status_str_inj: "status_str a = status_str b \<longleftrightarrow> a = b"
  by (cases a; cases b) simp_all

lemma latest_call_init_fields [simp]:
  "lc_from latest_call_init = None"
  "lc_speech latest_call_init = None"
  "lc_status latest_call_init = Waiting"
  by (simp_all add: latest_call_init_def)

text \<open>Each write changes its own key only: the frame conditions of the store.\<close>

lemma set_fields [simp]:
  "lc_from (set_from v st) = v" "lc_speech (set_from v st) = lc_speech st"
  "lc_status (set_from v st) = lc_status st"
  "lc_from (set_speech w st) = lc_from st" "lc_speech (set_speech w st) = w"
  "lc_status (set_speech w st) = lc_status st"
  "lc_from (set_status s st) = lc_from st" "lc_speech (set_status s st) = lc_speech st"
  "lc_status (set_status s st) = s"
  by (simp_all add: store_simps)

lemma call_state_eqI:
  "lc_from a = lc_from b \<Longrightarrow> lc_speech a = lc_speech b \<Longrightarrow> lc_status a = lc_status b
   \<Longrightarrow> a = (b :: call_state)"
  by (cases a, cases b) simp

text \<open>Writes to different keys commute; a second write to a key overrides the first.\<close>

lemma set_writes_commute:
  "set_from v (set_speech w st) = set_speech w (set_from v st)"
  "set_from v (set_status s st) = set_status s (set_from v st)"
  "set_speech w (set_status s st) = set_status s (set_speech w st)"
  by (simp_all add: store_simps)

lemma set_writes_override [simp]:
  "set_from v (set_from v' st) = set_from v st"
  "set_speech w (set_speech w' st) = set_speech w st"
  "set_status s (set_status s' st) = set_status s st"
  by (simp_all add: store_simps)

end
