(* ===== verification/TwiML.thy ===== *)
theory TwiML
  imports Prelude
begin

text \<open>
  The call-control documents the handlers build with the Twilio helper library
  (\<open>twilio.twiml.voice_response\<close>: \<open>VoiceResponse\<close>, \<open>Gather\<close>, \<open>Dial\<close>). A
  document is the list of verbs appended to a \<open>VoiceResponse\<close>, in order; each verb
  carries the attributes the source passes (\<open>Gather(input=..., action=...,
  method=..., timeout=...)\<close>, \<open>pause(length=...)\<close>, \<open>Dial(caller_id=...)\<close>) and
  its nested verbs or nouns. The wire serialisation of the library (XML text) is not
  modelled; the verbs and attributes are.
\<close>

section \<open>Documents\<close>

text \<open>\<open>dial.number(x)\<close>: the dialled number, \<open>None\<close> when the environment variable
  it is read from is unset.\<close>

datatype noun = Number "string option"

text \<open>\<open>Gather input action method timeout body\<close>; \<open>Dial caller_id nouns\<close>.\<close>

datatype verb =
    Reject
  | Say string
  | Gather string string string nat "verb list"
  | Pause nat
  | Dial "string option" "noun list"
  | Hangup

type_synonym voice_response = "verb list"

section \<open>Observations on documents\<close>

text \<open>The callback targets of a document: the \<open>action\<close> of every \<open>Gather\<close>, with
  the HTTP method the provider uses for it.\<close>

fun gather_targets :: "voice_response \<Rightarrow> (string \<times> string \<times> nat) list" where
  "gather_targets [] = []"
| "gather_targets (Gather inp act meth t body # vs) = (act, meth, t) # gather_targets vs"
| "gather_targets (v # vs) = gather_targets vs"

text \<open>A document ends the call when its last top-level verb is \<open>Hangup\<close> or
  \<open>Reject\<close>; the provider also ends the call when a document runs out of verbs.\<close>

definition ends_with_hangup :: "voice_response \<Rightarrow> bool" where
  "ends_with_hangup doc \<longleftrightarrow> doc \<noteq> [] \<and> last doc \<in> {Hangup, Reject}"

definition dialled_numbers :: "voice_response \<Rightarrow> string option list" where
  "dialled_numbers doc = concat (map (\<lambda>v. case v of Dial c ns \<Rightarrow> map (\<lambda>n. case n of Number x \<Rightarrow> x) ns | _ \<Rightarrow> []) doc)"

lemma gather_targets_append [simp]:
  "gather_targets (xs @ ys) = gather_targets xs @ gather_targets ys"
  by (induction xs rule: gather_targets.induct) simp_all

end
