(* ===== verification/Json.thy ===== *)
theory Json
  imports Prelude
begin

text \<open>
  JSON values of the shapes the service exchanges: the \<open>/status\<close> endpoint
  answers \<open>jsonify(latest_call)\<close>, an object whose values are strings or \<open>null\<close>
  (Python \<open>None\<close>), and the dashboard script reads its fields. An object keeps its
  members in order (Flask sorts the keys; \<open>from\<close>, \<open>speech\<close>, \<open>status\<close> is
  already sorted). Member lookup returns the first binding, as \<open>JSON.parse\<close> followed
  by property access returns the only one.
\<close>

datatype json = JNull | JString string | JObject "(string \<times> json) list"

text \<open>Python's \<open>None\<close> or \<open>str\<close> as JSON.\<close>

definition json_of_opt :: "string option \<Rightarrow> json" where
  "json_of_opt v = (case v of None \<Rightarrow> JNull | Some s \<Rightarrow> JString s)"

text \<open>Reading JSON back (the abstract side of the round trip): \<open>null\<close> is \<open>None\<close>, a
  string is \<open>Some\<close>; anything else is not a value the encoder produces.\<close>

definition opt_of_json :: "json \<Rightarrow> string option option" where
  "opt_of_json j = (case j of JNull \<Rightarrow> Some None | JString s \<Rightarrow> Some (Some s) | _ \<Rightarrow> None)"

definition json_member :: "json \<Rightarrow> string \<Rightarrow> json option" where
  "json_member j k = (case j of JObject kvs \<Rightarrow> map_of kvs k | _ \<Rightarrow> None)"

lemma opt_of_json_of_opt [simp]: "opt_of_json (json_of_opt v) = Some v"
  by (cases v) (simp_all add: json_of_opt_def opt_of_json_def)

lemma json_of_opt_simps [simp]:
  "json_of_opt None = JNull" "json_of_opt (Some s) = JString s"
  by (simp_all add: json_of_opt_def)

lemma json_of_opt_inj: "json_of_opt a = json_of_opt b \<longleftrightarrow> a = b"
  by (metis opt_of_json_of_opt option.inject)

end
