(* ===== verification/Handlers.thy ===== *)
theory Handlers
  imports PyStr CallState TwiML Json
begin

text \<open>
  The six view functions of \<open>src/main.py\<close>, one definition each, in the order of
  the source: \<open>voice\<close> (incoming call), \<open>screen\<close> (speech captured),
  \<open>connect_call\<close> and \<open>reject_call\<close> (operator decision), \<open>get_status\<close> (the
  polled status). A view that writes \<open>latest_call\<close> takes the record and returns
  it updated, with its writes in the source's order; a view that can raise returns
  \<open>py_exc + _\<close>. The \<open>print\<close> calls (stdout logging) are not modelled. The
  dashboard page itself is a constant; its script is modelled in \<open>Dashboard\<close>.
\<close>

section \<open>Inputs and errors\<close>

text \<open>\<open>request.form.get(key)\<close> and \<open>request.form.get(key, default)\<close>.\<close>

definition form_get :: "form \<Rightarrow> string \<Rightarrow> string option" where
  "form_get f k = map_of f k"

definition form_get_default :: "form \<Rightarrow> string \<Rightarrow> string \<Rightarrow> string" where
  "form_get_default f k d = (case map_of f k of None \<Rightarrow> d | Some v \<Rightarrow> v)"

text \<open>The exception \<open>voice\<close> can raise: \<open>None.startswith\<close> is an
  \<open>AttributeError\<close>; Flask turns it into a 500 response.\<close>

datatype py_exc = AttributeError string string

section \<open>The view functions\<close>

definition screening_prompt :: string where
  "screening_prompt =
     ''Hi. Steve is using call screening. Please state your name and why you are calling after the tone.''"

definition voice :: "form \<Rightarrow> py_exc + voice_response" where
  "voice f =
     (let from_number = form_get f ''From'';
          caller_name = form_get_default f ''CallerName'' ''Unknown''
      in case from_number of
           None \<Rightarrow> Inl (AttributeError ''NoneType'' ''startswith'')
         | Some n \<Rightarrow>
             if py_startswith n ''+100'' \<or> py_in ''VOIP'' (py_upper caller_name)
             then Inr [Reject]
             else Inr [Gather ''speech'' ''/screen'' ''POST'' 5 [Say screening_prompt],
                       Say ''No response received. Goodbye.'', Hangup])"

definition screen :: "form \<Rightarrow> call_state \<Rightarrow> call_state \<times> voice_response" where
  "screen f st =
     (let speech_result = form_get_default f ''SpeechResult'' ''No speech detected'';
          from_number = form_get f ''From'';
          st1 = set_from from_number st;
          st2 = set_speech (Some speech_result) st1;
          st3 = set_status Waiting st2
      in (st3, [Say ''Thank you. Please hold.'', Pause 10]))"

definition connect_call :: "environ \<Rightarrow> call_state \<Rightarrow> call_state \<times> voice_response" where
  "connect_call env st =
     (let st1 = set_status Answered st
      in (st1, [Dial (env ''TWILIO_PHONE_NUMBER'') [Number (env ''STEVE_PHONE_NUMBER'')]]))"

definition reject_call :: "call_state \<Rightarrow> call_state \<times> voice_response" where
  "reject_call st =
     (let st1 = set_status Rejected st
      in (st1, [Say ''Steve is not available at this time. Goodbye.'', Hangup]))"

definition get_status :: "call_state \<Rightarrow> json" where
  "get_status st =
     JObject [(''from'', json_of_opt (lc_from st)), (''speech'', json_of_opt (lc_speech st)),
              (''status'', JString (status_str (lc_status st)))]"

text \<open>The document \<open>voice\<close> returns to a caller who is screened.\<close>

definition screening_document :: voice_response where
  "screening_document =
     [Gather ''speech'' ''/screen'' ''POST'' 5 [Say screening_prompt],
      Say ''No response received. Goodbye.'', Hangup]"

section \<open>Basic facts\<close>

lemma voice_cases:
  "voice f = (case form_get f ''From'' of
       None \<Rightarrow> Inl (AttributeError ''NoneType'' ''startswith'')
     | Some n \<Rightarrow> if prefix ''+100'' n \<or>
                    (\<exists>w. sublist w (form_get_default f ''CallerName'' ''Unknown'') \<and> py_upper w = ''VOIP'')
                 then Inr [Reject] else Inr screening_document)"
  by (cases "form_get f ''From''")
     (simp_all add: voice_def screening_document_def py_startswith_prefix py_in_upper_iff)

lemma screen_state [screener_simps]:
  "fst (screen f st) =
     \<lparr>lc_from = form_get f ''From'',
      lc_speech = Some (form_get_default f ''SpeechResult'' ''No speech detected''),
      lc_status = Waiting\<rparr>"
  by (simp add: screen_def store_simps)

lemma screen_doc [screener_simps]:
  "snd (screen f st) = [Say ''Thank you. Please hold.'', Pause 10]"
  by (simp add: screen_def)

lemma connect_call_state [screener_simps]: "fst (connect_call env st) = set_status Answered st"
  and reject_call_state [screener_simps]: "fst (reject_call st) = set_status Rejected st"
  by (simp_all add: connect_call_def reject_call_def)

lemma form_get_default_Some:
  "form_get f k = Some v \<Longrightarrow> form_get_default f k d = v"
  by (simp add: form_get_def form_get_default_def)

lemma screening_document_shape:
  "gather_targets screening_document = [(''/screen'', ''POST'', 5)]"
  "ends_with_hangup screening_document"
  by (simp_all add: screening_document_def ends_with_hangup_def)

section \<open>The incoming-call handler\<close>

text \<open>C1. A caller whose number starts with the spam prefix \<open>+100\<close> is rejected
  with a document that holds the single verb \<open>Reject\<close>, whatever display name the
  caller presents.\<close>

theorem voice_spam_prefix_rejects:
  assumes "form_get f ''From'' = Some n" and "prefix ''+100'' n"
  shows "voice f = Inr [Reject]"
  using assms by (simp add: voice_cases)

theorem voice_spam_prefix_rejects_witness:
  "voice [(''From'', ''+1005550100''), (''CallerName'', ''Alice'')] = Inr [Reject]"
  by (rule voice_spam_prefix_rejects [of _ "''+1005550100''"]) (simp_all add: form_get_def)

text \<open>C2. A caller with a number whose display name contains \<open>VOIP\<close> in any mix of
  upper and lower case is rejected with the single verb \<open>Reject\<close>, whatever the
  number is.\<close>

theorem voice_voip_name_rejects:
  assumes "form_get f ''From'' = Some n" and "form_get f ''CallerName'' = Some name"
    and "sublist w name" and "py_upper w = ''VOIP''"
  shows "voice f = Inr [Reject]"
proof -
  from assms(2) have "form_get_default f ''CallerName'' ''Unknown'' = name"
    by (rule form_get_default_Some)
  with assms show ?thesis by (auto simp: voice_cases)
qed

theorem voice_voip_name_rejects_witness:
  "voice [(''From'', ''+15551234567''), (''CallerName'', ''Acme VoIP Inc'')] = Inr [Reject]"
proof (rule voice_voip_name_rejects)
  show "sublist ''VoIP'' ''Acme VoIP Inc''" by (simp add: py_in_sublist [symmetric])
qed (simp_all add: form_get_def py_upper_char_def ascii_upper_table_def)

text \<open>C3. When the provider posts no \<open>From\<close> field, \<open>voice\<close> raises
  \<open>AttributeError\<close> on \<open>None.startswith\<close> before it looks at the display name: a
  missing caller identifier is not treated as non-matching, and even a VOIP display
  name is not rejected.\<close>

theorem voice_missing_from_raises:
  assumes "form_get f ''From'' = None"
  shows "voice f = Inl (AttributeError ''NoneType'' ''startswith'')"
  using assms by (simp add: voice_cases)

theorem voice_missing_from_raises_witness:
  "voice [(''CallerName'', ''VOIP Caller'')] = Inl (AttributeError ''NoneType'' ''startswith'')"
  by (rule voice_missing_from_raises) (simp add: form_get_def)

text \<open>C4. Every other caller (a number without the spam prefix, a display name, or
  the default \<open>Unknown\<close>, with no case variant of \<open>VOIP\<close> in it) gets the screening
  document: one speech \<open>Gather\<close> posting to \<open>/screen\<close> with a 5 second timeout,
  then the goodbye message and \<open>Hangup\<close>.\<close>

theorem voice_screens_other_callers:
  assumes "form_get f ''From'' = Some n" and "\<not> prefix ''+100'' n"
    and "\<forall>w. sublist w (form_get_default f ''CallerName'' ''Unknown'') \<longrightarrow> py_upper w \<noteq> ''VOIP''"
  shows "voice f = Inr screening_document
    \<and> gather_targets screening_document = [(''/screen'', ''POST'', 5)]
    \<and> ends_with_hangup screening_document"
  using assms by (auto simp: voice_cases screening_document_shape)

theorem voice_screens_other_callers_witness:
  "voice [(''From'', ''+15551234567''), (''CallerName'', ''Bob'')] = Inr screening_document"
proof -
  have "\<forall>w. sublist w ''Bob'' \<longrightarrow> py_upper w \<noteq> ''VOIP''"
    using py_in_upper_iff [of "''VOIP''" "''Bob''"]
    by (simp add: py_upper_char_def ascii_upper_table_def)
  then show ?thesis
    using voice_screens_other_callers [of "[(''From'', ''+15551234567''), (''CallerName'', ''Bob'')]"
        "''+15551234567''"]
    by (simp add: form_get_def form_get_default_def)
qed

section \<open>Speech capture and operator decisions\<close>

text \<open>C5. The speech-capture handler overwrites the whole record, it does not merge
  into it: the record it leaves does not depend on the record it found, its status is
  \<open>waiting\<close>, and its speech is never \<open>None\<close>.\<close>

theorem screen_overwrites_record:
  "fst (screen f st1) = fst (screen f st2)
   \<and> lc_status (fst (screen f st1)) = Waiting \<and> lc_speech (fst (screen f st1)) \<noteq> None"
  by (simp add: screener_simps)

text \<open>C6. The connect handler dials exactly one number, the value of
  \<open>STEVE_PHONE_NUMBER\<close>, presenting \<open>TWILIO_PHONE_NUMBER\<close> as caller id, and when
  the variable is unset it still answers with a \<open>Dial\<close> whose number is empty.\<close>

theorem connect_dials_configured_number:
  "(\<exists>ns. snd (connect_call env st) = [Dial (env ''TWILIO_PHONE_NUMBER'') ns])
   \<and> dialled_numbers (snd (connect_call env st)) = [env ''STEVE_PHONE_NUMBER'']"
  by (simp add: connect_call_def dialled_numbers_def)

theorem connect_dials_configured_number_witness:
  "dialled_numbers (snd (connect_call Map.empty latest_call_init)) = [None]"
  using connect_dials_configured_number [of Map.empty latest_call_init] by simp

end
