(* ===== verification/App.thy ===== *)
theory App
  imports Handlers
begin

text \<open>
  The Flask application object \<open>app\<close> of \<open>src/main.py\<close>: its URL map (the six
  \<open>@app.route\<close> decorators), the dispatch of one request to a view with Flask's
  error responses (404 for an unknown path, 405 for a method the rule does not allow,
  500 when the view raises), the methods Flask and werkzeug add to every rule
  (\<open>HEAD\<close> for a \<open>GET\<close> rule, \<open>OPTIONS\<close> answered automatically), and a server
  that handles a sequence of requests one after the other against the shared
  \<open>latest_call\<close>. The reachable states of that server are an inductive set.
  Concurrent handling is in \<open>Concurrency\<close>.
\<close>

section \<open>Requests, routes and responses\<close>

datatype http_method = GET | HEAD | POST | PUT | DELETE | PATCH | OPTIONS | TRACE | CONNECT

record request =
  req_method :: http_method
  req_path :: string
  req_form :: form

datatype endpoint = EVoice | EScreen | EConnect | EReject | EStatus | EDashboard

text \<open>\<open>@app.route(path, methods=[...])\<close>; a route without \<open>methods\<close> is \<open>GET\<close>.\<close>

definition url_map :: "(string \<times> endpoint \<times> http_method list) list" where
  "url_map =
     [(''/voice'', EVoice, [POST]), (''/screen'', EScreen, [POST]),
      (''/connect'', EConnect, [POST]), (''/reject'', EReject, [POST]),
      (''/status'', EStatus, [GET]), (''/'', EDashboard, [GET])]"

text \<open>werkzeug adds \<open>HEAD\<close> to a rule that allows \<open>GET\<close>; Flask adds \<open>OPTIONS\<close>
  and answers it itself.\<close>

definition rule_methods :: "http_method list \<Rightarrow> http_method list" where
  "rule_methods ms =
     ms @ (if GET \<in> set ms \<and> HEAD \<notin> set ms then [HEAD] else [])
        @ (if OPTIONS \<in> set ms then [] else [OPTIONS])"

text \<open>The responses: \<open>Response(str(response), mimetype='text/xml')\<close>,
  \<open>jsonify(...)\<close>, the rendered dashboard page, Flask's automatic \<open>OPTIONS\<close> answer
  (its \<open>Allow\<close> header), a \<open>HEAD\<close> answer (the view's response without its body),
  and an error status.\<close>

datatype http_response =
    TwimlResponse voice_response
  | JsonResponse json
  | DashboardPage
  | OptionsResponse "http_method list"
  | HeadResponse
  | HttpError nat

definition run_view :: "environ \<Rightarrow> call_state \<Rightarrow> endpoint \<Rightarrow> form \<Rightarrow> call_state \<times> http_response" where
  "run_view env st e f =
     (case e of
        EVoice \<Rightarrow> (case voice f of Inl exc \<Rightarrow> (st, HttpError 500) | Inr doc \<Rightarrow> (st, TwimlResponse doc))
      | EScreen \<Rightarrow> (let (st', doc) = screen f st in (st', TwimlResponse doc))
      | EConnect \<Rightarrow> (let (st', doc) = connect_call env st in (st', TwimlResponse doc))
      | EReject \<Rightarrow> (let (st', doc) = reject_call st in (st', TwimlResponse doc))
      | EStatus \<Rightarrow> (st, JsonResponse (get_status st))
      | EDashboard \<Rightarrow> (st, DashboardPage))"

definition handle_request :: "environ \<Rightarrow> call_state \<Rightarrow> request \<Rightarrow> call_state \<times> http_response" where
  "handle_request env st r =
     (case map_of url_map (req_path r) of
        None \<Rightarrow> (st, HttpError 404)
      | Some (e, ms) \<Rightarrow>
          if req_method r \<notin> set (rule_methods ms) then (st, HttpError 405)
          else if req_method r = OPTIONS then (st, OptionsResponse (rule_methods ms))
          else if req_method r = HEAD then
            (case run_view env st e (req_form r) of
               (st', HttpError n) \<Rightarrow> (st', HttpError n)
             | (st', resp) \<Rightarrow> (st', HeadResponse))
          else run_view env st e (req_form r))"

text \<open>Requests handled one at a time, each against the record the previous one left.\<close>

fun serve :: "environ \<Rightarrow> call_state \<Rightarrow> request list \<Rightarrow> call_state \<times> http_response list" where
  "serve env st [] = (st, [])"
| "serve env st (r # rs) =
     (let (st1, resp) = handle_request env st r;
          (st2, resps) = serve env st1 rs
      in (st2, resp # resps))"

text \<open>The states the record can reach from \<open>latest_call_init\<close> under any requests,
  whatever the environment.\<close>

inductive reachable :: "call_state \<Rightarrow> bool" where
  init: "reachable latest_call_init"
| step: "reachable st \<Longrightarrow> reachable (fst (handle_request env st r))"

text \<open>The invariant of the record: \<open>speech\<close> is only \<open>None\<close> before the first
  \<open>/screen\<close>, and then \<open>from\<close> is \<open>None\<close> too.\<close>

definition call_inv :: "call_state \<Rightarrow> bool" where
  "call_inv st \<longleftrightarrow> (lc_speech st = None \<longrightarrow> lc_from st = None)"

text \<open>Requests as the provider and the dashboard send them.\<close>

definition post :: "string \<Rightarrow> form \<Rightarrow> request" where
  "post p f = \<lparr>req_method = POST, req_path = p, req_form = f\<rparr>"

definition get :: "string \<Rightarrow> request" where
  "get p = \<lparr>req_method = GET, req_path = p, req_form = []\<rparr>"

text \<open>The \<open>status\<close> member of a JSON response.\<close>

fun status_field :: "http_response \<Rightarrow> json option" where
  "status_field (JsonResponse j) = json_member j ''status''"
| "status_field r = None"

section \<open>Dispatch lemmas\<close>

lemma rule_methods_POST [simp]: "rule_methods [POST] = [POST, OPTIONS]"
  and rule_methods_GET [simp]: "rule_methods [GET] = [GET, HEAD, OPTIONS]"
  by (simp_all add: rule_methods_def)

text \<open>Each route of the map, as the provider and the dashboard call it.\<close>

lemma handle_request_routes [screener_simps]:
  "handle_request env st (post ''/voice'' f) =
     (case voice f of Inl exc \<Rightarrow> (st, HttpError 500) | Inr doc \<Rightarrow> (st, TwimlResponse doc))"
  "handle_request env st (post ''/screen'' f) = (fst (screen f st), TwimlResponse (snd (screen f st)))"
  "handle_request env st (post ''/connect'' f) =
     (fst (connect_call env st), TwimlResponse (snd (connect_call env st)))"
  "handle_request env st (post ''/reject'' f) = (fst (reject_call st), TwimlResponse (snd (reject_call st)))"
  "handle_request env st (get ''/status'') = (st, JsonResponse (get_status st))"
  "handle_request env st (get ''/'') = (st, DashboardPage)"
  by (simp_all add: handle_request_def post_def get_def url_map_def run_view_def
      split: prod.splits)

text \<open>What a view does to the record, and what a request does.\<close>

lemma run_view_state:
  "fst (run_view env st e f) =
     (case e of EScreen \<Rightarrow> fst (screen f st) | EConnect \<Rightarrow> set_status Answered st
      | EReject \<Rightarrow> set_status Rejected st | _ \<Rightarrow> st)"
  by (cases e) (simp_all add: run_view_def split_beta screener_simps split: sum.splits)

lemma handle_request_state:
  "fst (handle_request env st r) =
     (case map_of url_map (req_path r) of
        None \<Rightarrow> st
      | Some (e, ms) \<Rightarrow>
          if req_method r \<in> set (rule_methods ms) \<and> req_method r \<noteq> OPTIONS
          then fst (run_view env st e (req_form r)) else st)"
  by (simp add: handle_request_def split: option.splits prod.splits http_response.splits)

lemma url_map_SomeD:
  "map_of url_map p = Some (e, ms) \<Longrightarrow> (p, e, ms) \<in> set url_map"
  by (rule map_of_SomeD)

lemma url_map_writers:
  "(p, e, ms) \<in> set url_map \<Longrightarrow> e \<in> {EScreen, EConnect, EReject} \<Longrightarrow>
   ms = [POST] \<and> p \<in> {''/screen'', ''/connect'', ''/reject''}"
  by (auto simp: url_map_def)

lemma handle_request_cases:
  "fst (handle_request env st r) = st \<or>
   (req_method r = POST \<and>
    (req_path r = ''/screen'' \<and> fst (handle_request env st r) = fst (screen (req_form r) st)
     \<or> req_path r = ''/connect'' \<and> fst (handle_request env st r) = set_status Answered st
     \<or> req_path r = ''/reject'' \<and> fst (handle_request env st r) = set_status Rejected st))"
proof (cases "map_of url_map (req_path r)")
  case None
  then show ?thesis by (simp add: handle_request_state)
next
  case (Some a)
  obtain e ms where a: "a = (e, ms)" by (cases a)
  with Some have mem: "(req_path r, e, ms) \<in> set url_map" by (simp add: url_map_SomeD)
  show ?thesis
  proof (cases "e \<in> {EScreen, EConnect, EReject}")
    case True
    with mem have "ms = [POST]" and p: "req_path r \<in> {''/screen'', ''/connect'', ''/reject''}"
      by (auto dest: url_map_writers)
    with Some a True p show ?thesis
      by (auto simp: handle_request_state run_view_state url_map_def)
  next
    case False
    with Some a show ?thesis
      by (cases e) (simp_all add: handle_request_state run_view_state)
  qed
qed

lemma serve_Cons_state:
  "serve env st (r # rs) = (fst (serve env (fst (handle_request env st r)) rs),
     snd (handle_request env st r) # snd (serve env (fst (handle_request env st r)) rs))"
  by (simp split: prod.splits)

lemma call_inv_step: "call_inv st \<Longrightarrow> call_inv (fst (handle_request env st r))"
  using handle_request_cases [of env st r]
  by (auto simp: call_inv_def screener_simps)

lemma reachable_set_status:
  assumes "reachable st" and "lc_status st = Waiting"
  shows "reachable (set_status s st)"
proof (cases s)
  case Waiting
  with assms(2) have "set_status s st = st" by (simp add: set_status_def)
  with assms(1) show ?thesis by simp
next
  case Answered
  from assms(1) have "reachable (fst (handle_request Map.empty st (post ''/connect'' [])))"
    by (rule reachable.step)
  with Answered show ?thesis by (simp add: screener_simps)
next
  case Rejected
  from assms(1) have "reachable (fst (handle_request Map.empty st (post ''/reject'' [])))"
    by (rule reachable.step)
  with Rejected show ?thesis by (simp add: screener_simps)
qed

lemma reachable_screened:
  "reachable \<lparr>lc_from = fr, lc_speech = Some sp, lc_status = Waiting\<rparr>"
proof -
  let ?f = "(''SpeechResult'', sp) # (case fr of None \<Rightarrow> [] | Some x \<Rightarrow> [(''From'', x)])"
  have "reachable (fst (handle_request Map.empty latest_call_init (post ''/screen'' ?f)))"
    by (rule reachable.step [OF reachable.init])
  moreover have "fst (handle_request Map.empty latest_call_init (post ''/screen'' ?f)) =
      \<lparr>lc_from = fr, lc_speech = Some sp, lc_status = Waiting\<rparr>"
    by (cases fr) (simp_all add: screener_simps form_get_def form_get_default_def)
  ultimately show ?thesis by simp
qed

section \<open>The status contract of the specification\<close>

text \<open>C7. After the speech-capture webhook posts \<open>SpeechResult\<close> and \<open>From\<close>,
  a status query answers \<open>{from: From, speech: SpeechResult, status: "waiting"}\<close>,
  whatever the record held before.\<close>

theorem status_after_screen:
  "snd (serve env st [post ''/screen'' [(''SpeechResult'', sp), (''From'', fr)], get ''/status''])
   = [TwimlResponse [Say ''Thank you. Please hold.'', Pause 10],
      JsonResponse (JObject [(''from'', JString fr), (''speech'', JString sp),
                             (''status'', JString ''waiting'')])]"
  by (simp add: screener_simps get_status_def form_get_def form_get_default_def)

text \<open>C8. After the connect action, a status query answers \<open>status: "answered"\<close>.\<close>

theorem status_after_connect:
  "map status_field (snd (serve env st [post ''/connect'' f, get ''/status'']))
   = [None, Some (JString ''answered'')]"
  by (simp add: screener_simps get_status_def json_member_def)

text \<open>C9. After the reject action, a status query answers \<open>status: "rejected"\<close>.\<close>

theorem status_after_reject:
  "map status_field (snd (serve env st [post ''/reject'' f, get ''/status'']))
   = [None, Some (JString ''rejected'')]"
  by (simp add: screener_simps get_status_def json_member_def)

text \<open>C10. Status queries change nothing: any number of them in a row leave the record
  as it was and all return the same answer.\<close>

theorem status_query_idempotent:
  "serve env st (replicate n (get ''/status'')) = (st, replicate n (JsonResponse (get_status st)))"
  by (induction n) (simp_all add: screener_simps)

text \<open>C11. Only three requests write the record: a \<open>POST\<close> to \<open>/screen\<close>,
  \<open>/connect\<close> or \<open>/reject\<close>. The incoming-call webhook, the status query, the
  dashboard page, automatic \<open>HEAD\<close>/\<open>OPTIONS\<close> answers and every 404/405/500
  leave it unchanged.\<close>

theorem only_three_requests_write:
  assumes "fst (handle_request env st r) \<noteq> st"
  shows "req_method r = POST \<and> req_path r \<in> {''/screen'', ''/connect'', ''/reject''}"
  using assms handle_request_cases [of env st r] by auto

theorem only_three_requests_write_witness:
  "req_method (post ''/connect'' []) = POST \<and> req_path (post ''/connect'' []) \<in> {''/screen'', ''/connect'', ''/reject''}"
proof (rule only_three_requests_write [of Map.empty latest_call_init])
  show "fst (handle_request Map.empty latest_call_init (post ''/connect'' [])) \<noteq> latest_call_init"
    by (simp add: screener_simps latest_call_init_def set_status_def)
qed

text \<open>C12. An incoming call without a \<open>From\<close> field is answered with HTTP 500 (the
  view raised) and leaves the record unchanged.\<close>

theorem voice_without_from_is_500:
  assumes "form_get f ''From'' = None"
  shows "handle_request env st (post ''/voice'' f) = (st, HttpError 500)"
  using assms by (simp add: screener_simps voice_cases)

theorem voice_without_from_is_500_witness:
  "handle_request Map.empty latest_call_init (post ''/voice'' [(''CallerName'', ''VOIP'')])
   = (latest_call_init, HttpError 500)"
  by (rule voice_without_from_is_500) (simp add: form_get_def)

section \<open>Reachable states\<close>

lemma reachable_call_inv: "reachable st \<Longrightarrow> call_inv st"
proof (induction rule: reachable.induct)
  case init
  show ?case by (simp add: call_inv_def)
next
  case (step st env r)
  then show ?case by (simp add: call_inv_step)
qed

text \<open>C13. The states the record reaches under any sequence of requests are exactly
  those satisfying the invariant: \<open>speech\<close> is \<open>None\<close> only while \<open>from\<close> is
  \<open>None\<close> (before the first \<open>/screen\<close>); every such state is reached, with any
  status.\<close>

theorem reachable_iff_call_inv: "reachable st \<longleftrightarrow> call_inv st"
proof
  assume "reachable st"
  then show "call_inv st" by (rule reachable_call_inv)
next
  assume inv: "call_inv st"
  show "reachable st"
  proof (cases "lc_speech st")
    case None
    with inv have base: "set_status (lc_status st) latest_call_init = st"
      by (intro call_state_eqI) (simp_all add: call_inv_def)
    have "reachable (set_status (lc_status st) latest_call_init)"
      by (rule reachable_set_status) (simp_all add: reachable.init)
    with base show ?thesis by simp
  next
    case (Some sp)
    let ?b = "\<lparr>lc_from = lc_from st, lc_speech = Some sp, lc_status = Waiting\<rparr>"
    have base: "set_status (lc_status st) ?b = st"
      using Some by (intro call_state_eqI) simp_all
    have "reachable (set_status (lc_status st) ?b)"
      by (rule reachable_set_status) (simp_all add: reachable_screened)
    with base show ?thesis by simp
  qed
qed

theorem reachable_iff_call_inv_witness:
  "reachable \<lparr>lc_from = None, lc_speech = Some ''Hi it's Bob'', lc_status = Rejected\<rparr>
   \<and> \<not> reachable \<lparr>lc_from = Some ''+15551234567'', lc_speech = None, lc_status = Waiting\<rparr>"
  using reachable_iff_call_inv [of "\<lparr>lc_from = None, lc_speech = Some ''Hi it's Bob'', lc_status = Rejected\<rparr>"]
    reachable_iff_call_inv [of "\<lparr>lc_from = Some ''+15551234567'', lc_speech = None, lc_status = Waiting\<rparr>"]
  by (simp add: call_inv_def)

end
