(* ===== verification/Concurrency.thy ===== *)
theory Concurrency
  imports App
begin

text \<open>
  Concurrent handling of requests. The development server started by \<open>app.run\<close>
  is threaded: every request runs in its own thread against the one
  \<open>latest_call\<close> dictionary, with no lock. A view touches the dictionary in
  separate statements: \<open>screen\<close> stores \<open>from\<close>, \<open>speech\<close> and \<open>status\<close> in
  three statements (lines 48-50); \<open>connect_call\<close> and \<open>reject_call\<close> store
  \<open>status\<close> once; \<open>get_status\<close> reads the whole dictionary once inside
  \<open>jsonify\<close>. Under CPython each single store and the encoder's snapshot of the
  dictionary are atomic; between them another thread may run. A thread is therefore
  the list of its store operations, and a scheduler step runs the next operation of
  any thread (\<open>cstep\<close>). Reads record the record they observed.
\<close>

section \<open>Store operations and threads\<close>

datatype store_op =
    WriteFrom "string option"
  | WriteSpeech "string option"
  | WriteStatus call_status
  | ReadRecord

fun apply_op :: "call_state \<Rightarrow> store_op \<Rightarrow> call_state" where
  "apply_op st (WriteFrom v) = set_from v st"
| "apply_op st (WriteSpeech v) = set_speech v st"
| "apply_op st (WriteStatus s) = set_status s st"
| "apply_op st ReadRecord = st"

text \<open>The accesses of each view to \<open>latest_call\<close>, in the order of its statements.
  The form values are read first, so each write stores a value fixed at the start of
  the thread.\<close>

definition view_ops :: "endpoint \<Rightarrow> form \<Rightarrow> store_op list" where
  "view_ops e f =
     (case e of
        EVoice \<Rightarrow> []
      | EScreen \<Rightarrow>
          [WriteFrom (form_get f ''From''),
           WriteSpeech (Some (form_get_default f ''SpeechResult'' ''No speech detected'')),
           WriteStatus Waiting]
      | EConnect \<Rightarrow> [WriteStatus Answered]
      | EReject \<Rightarrow> [WriteStatus Rejected]
      | EStatus \<Rightarrow> [ReadRecord]
      | EDashboard \<Rightarrow> [])"

text \<open>A request's thread: the accesses of the view it is dispatched to; none when
  Flask answers it without a view (404, 405, \<open>OPTIONS\<close>).\<close>

definition request_ops :: "request \<Rightarrow> store_op list" where
  "request_ops r =
     (case map_of url_map (req_path r) of
        None \<Rightarrow> []
      | Some (e, ms) \<Rightarrow>
          if req_method r \<in> set (rule_methods ms) \<and> req_method r \<noteq> OPTIONS
          then view_ops e (req_form r) else [])"

record sched =
  sh_store :: call_state
  sh_threads :: "store_op list list"
  sh_reads :: "call_state list"

inductive cstep :: "sched \<Rightarrow> sched \<Rightarrow> bool" where
  run_op: "i < length (sh_threads c) \<Longrightarrow> sh_threads c ! i = op # rest \<Longrightarrow>
    cstep c \<lparr>sh_store = apply_op (sh_store c) op, sh_threads = (sh_threads c)[i := rest],
             sh_reads = sh_reads c @ (if op = ReadRecord then [sh_store c] else [])\<rparr>"

definition spawn :: "call_state \<Rightarrow> request list \<Rightarrow> sched" where
  "spawn st rs = \<lparr>sh_store = st, sh_threads = map request_ops rs, sh_reads = []\<rparr>"

definition finished :: "sched \<Rightarrow> bool" where
  "finished c \<longleftrightarrow> concat (sh_threads c) = []"

text \<open>The shape of the threads the views produce: a write of \<open>from\<close> is followed
  at once by a write of a non-\<open>None\<close> speech.\<close>

fun ops_ok :: "store_op list \<Rightarrow> bool" where
  "ops_ok [] = True"
| "ops_ok (WriteFrom v # rest) =
     (case rest of WriteSpeech (Some s) # later \<Rightarrow> ops_ok rest | _ \<Rightarrow> False)"
| "ops_ok (WriteSpeech v # rest) = (v \<noteq> None \<and> ops_ok rest)"
| "ops_ok (op # rest) = ops_ok rest"

text \<open>The invariant of a concurrent execution: the threads keep their shape, and
  \<open>speech\<close> is \<open>None\<close> only while \<open>from\<close> is too or while some thread has written
  \<open>from\<close> and not yet \<open>speech\<close>.\<close>

definition conc_inv :: "sched \<Rightarrow> bool" where
  "conc_inv c \<longleftrightarrow>
     list_all ops_ok (sh_threads c) \<and>
     (lc_speech (sh_store c) = None \<longrightarrow>
        lc_from (sh_store c) = None \<or> (\<exists>t \<in> set (sh_threads c). \<exists>v rest. t = WriteSpeech v # rest))"

text \<open>An executable scheduler: run the next operation of the threads named by a list
  of indices, in turn; \<open>None\<close> when an index names no thread or a finished one.\<close>

definition exec_at :: "sched \<Rightarrow> nat \<Rightarrow> sched" where
  "exec_at c i =
     (let op = hd (sh_threads c ! i)
      in \<lparr>sh_store = apply_op (sh_store c) op, sh_threads = (sh_threads c)[i := tl (sh_threads c ! i)],
          sh_reads = sh_reads c @ (if op = ReadRecord then [sh_store c] else [])\<rparr>)"

fun run_sched :: "sched \<Rightarrow> nat list \<Rightarrow> sched option" where
  "run_sched c [] = Some c"
| "run_sched c (i # ixs) =
     (if i < length (sh_threads c) \<and> sh_threads c ! i \<noteq> [] then run_sched (exec_at c i) ixs else None)"

text \<open>A thread that only reads the record.\<close>

definition read_only :: "store_op list \<Rightarrow> bool" where
  "read_only t \<longleftrightarrow> list_all (\<lambda>op. op = ReadRecord) t"

section \<open>The shape of the threads\<close>

lemma ops_ok_view_ops: "ops_ok (view_ops e f)"
  by (cases e) (simp_all add: view_ops_def)

lemma ops_ok_request_ops: "ops_ok (request_ops r)"
  by (simp add: request_ops_def ops_ok_view_ops split: option.splits prod.splits)

lemma ops_ok_Cons: "ops_ok (op # rest) \<Longrightarrow> ops_ok rest"
  by (cases op) (auto split: list.splits store_op.splits option.splits)

section \<open>The scheduler and the step relation\<close>

inductive_cases cstepE: "cstep c c'"

lemma cstep_exec_at:
  "i < length (sh_threads c) \<Longrightarrow> sh_threads c ! i \<noteq> [] \<Longrightarrow> cstep c (exec_at c i)"
  using cstep.run_op [of i c "hd (sh_threads c ! i)" "tl (sh_threads c ! i)"]
  by (simp add: exec_at_def Let_def)

lemma cstep_exec_at_conv:
  "cstep c c' \<longleftrightarrow> (\<exists>i. i < length (sh_threads c) \<and> sh_threads c ! i \<noteq> [] \<and> c' = exec_at c i)"
proof
  assume "cstep c c'"
  then show "\<exists>i. i < length (sh_threads c) \<and> sh_threads c ! i \<noteq> [] \<and> c' = exec_at c i"
    by (auto elim!: cstepE simp: exec_at_def)
next
  assume "\<exists>i. i < length (sh_threads c) \<and> sh_threads c ! i \<noteq> [] \<and> c' = exec_at c i"
  then show "cstep c c'" by (auto intro: cstep_exec_at)
qed

lemma run_sched_star: "run_sched c ixs = Some c' \<Longrightarrow> cstep\<^sup>*\<^sup>* c c'"
proof (induction c ixs rule: run_sched.induct)
  case (1 c)
  then show ?case by simp
next
  case (2 c i ixs)
  then have "cstep c (exec_at c i)" and "cstep\<^sup>*\<^sup>* (exec_at c i) c'"
    by (auto intro: cstep_exec_at split: if_splits)
  then show ?case by (rule converse_rtranclp_into_rtranclp)
qed

lemma star_run_sched: "cstep\<^sup>*\<^sup>* c c' \<Longrightarrow> \<exists>ixs. run_sched c ixs = Some c'"
proof (induction rule: converse_rtranclp_induct)
  case base
  have "run_sched c' [] = Some c'" by simp
  then show ?case by blast
next
  case (step c c2)
  from step.hyps(1) obtain i where "i < length (sh_threads c)" "sh_threads c ! i \<noteq> []"
    and "c2 = exec_at c i" by (auto simp: cstep_exec_at_conv)
  moreover from step.IH obtain ixs where "run_sched c2 ixs = Some c'" by blast
  ultimately have "run_sched c (i # ixs) = Some c'" by simp
  then show ?case by blast
qed

section \<open>The invariant of concurrent executions\<close>

text \<open>A thread about to write \<open>speech\<close> is still about to write it after another
  thread, or a thread whose next operation is no \<open>speech\<close> write, has moved.\<close>

lemma pending_speech_kept:
  assumes "\<exists>t \<in> set ts. \<exists>v r. t = WriteSpeech v # r"
    and "ts ! i = op # rest" and "\<forall>v. op \<noteq> WriteSpeech v"
  shows "\<exists>t \<in> set (ts[i := rest]). \<exists>v r. t = WriteSpeech v # r"
proof -
  from assms(1) obtain t v r where t: "t \<in> set ts" "t = WriteSpeech v # r" by blast
  with assms(2,3) have "t \<noteq> ts ! i" by auto
  with t have "t \<in> set (ts[i := rest])" by (simp add: mem_set_update_other)
  with t show ?thesis by blast
qed

lemma cstep_conc_inv: "cstep c c' \<Longrightarrow> conc_inv c \<Longrightarrow> conc_inv c'"
proof (induction rule: cstep.induct)
  case (run_op i c op rest)
  let ?ts = "sh_threads c"
  from run_op have ok: "ops_ok (op # rest)" by (metis list_all_iff nth_mem conc_inv_def)
  then have "ops_ok rest" by (rule ops_ok_Cons)
  with run_op have all': "list_all ops_ok (?ts[i := rest])"
    by (simp add: conc_inv_def list_all_update_keep)
  show ?case
  proof (cases op)
    case (WriteFrom v)
    with ok obtain s later where "rest = WriteSpeech (Some s) # later"
      by (auto split: list.splits store_op.splits option.splits)
    moreover from run_op(1) have "rest \<in> set (?ts[i := rest])" by (rule mem_set_update_same)
    ultimately show ?thesis using all' WriteFrom by (auto simp: conc_inv_def)
  next
    case (WriteSpeech v)
    with ok all' show ?thesis by (auto simp: conc_inv_def)
  next
    case (WriteStatus s)
    then have nw: "\<forall>v. op \<noteq> WriteSpeech v" by simp
    have "lc_speech (sh_store c) = None \<longrightarrow> lc_from (sh_store c) = None
        \<or> (\<exists>t \<in> set (?ts[i := rest]). \<exists>v r. t = WriteSpeech v # r)"
      using run_op.prems pending_speech_kept [OF _ run_op(2) nw] unfolding conc_inv_def by blast
    with all' WriteStatus show ?thesis by (simp add: conc_inv_def)
  next
    case ReadRecord
    then have nw: "\<forall>v. op \<noteq> WriteSpeech v" by simp
    have "lc_speech (sh_store c) = None \<longrightarrow> lc_from (sh_store c) = None
        \<or> (\<exists>t \<in> set (?ts[i := rest]). \<exists>v r. t = WriteSpeech v # r)"
      using run_op.prems pending_speech_kept [OF _ run_op(2) nw] unfolding conc_inv_def by blast
    with all' ReadRecord show ?thesis by (simp add: conc_inv_def)
  qed
qed

lemma star_conc_inv: "cstep\<^sup>*\<^sup>* c c' \<Longrightarrow> conc_inv c \<Longrightarrow> conc_inv c'"
  by (induction rule: rtranclp_induct) (auto intro: cstep_conc_inv)

lemma conc_inv_spawn: "call_inv st \<Longrightarrow> conc_inv (spawn st rs)"
  by (simp add: conc_inv_def spawn_def call_inv_def list_all_iff ops_ok_request_ops)

lemma finished_conc_inv: "conc_inv c \<Longrightarrow> finished c \<Longrightarrow> call_inv (sh_store c)"
  by (auto simp: conc_inv_def finished_def call_inv_def)

section \<open>Properties of concurrent handling\<close>

text \<open>The executable scheduler and the step relation agree: a configuration is
  reachable by interleaving steps exactly when some list of thread indices drives
  \<open>run_sched\<close> to it.\<close>

theorem run_sched_iff_star: "cstep\<^sup>*\<^sup>* c c' \<longleftrightarrow> (\<exists>ixs. run_sched c ixs = Some c')"
  using run_sched_star star_run_sched by blast

text \<open>C15. Once every thread has finished, the record again satisfies the invariant
  of the sequential server (speech is \<open>None\<close> only if from is), whatever the
  interleaving.\<close>

theorem finished_restores_invariant:
  assumes "cstep\<^sup>*\<^sup>* (spawn st rs) c" and "call_inv st" and "finished c"
  shows "call_inv (sh_store c)"
proof -
  from assms(2) have "conc_inv (spawn st rs)" by (rule conc_inv_spawn)
  with assms(1) have "conc_inv c" by (rule star_conc_inv)
  with assms(3) show ?thesis by (simp add: finished_conc_inv)
qed

theorem finished_restores_invariant_witness:
  "call_inv (sh_store \<lparr>sh_store = \<lparr>lc_from = Some ''+15550002'', lc_speech = Some ''Alice calling'',
                          lc_status = Waiting\<rparr>, sh_threads = [[], []], sh_reads = []\<rparr>)"
proof (rule finished_restores_invariant)
  show "cstep\<^sup>*\<^sup>* (spawn latest_call_init
      [post ''/screen'' [(''From'', ''+15550001''), (''SpeechResult'', ''Alice calling'')],
       post ''/screen'' [(''From'', ''+15550002''), (''SpeechResult'', ''Bob here'')]])
     \<lparr>sh_store = \<lparr>lc_from = Some ''+15550002'', lc_speech = Some ''Alice calling'', lc_status = Waiting\<rparr>,
      sh_threads = [[], []], sh_reads = []\<rparr>"
    by (rule run_sched_star [where ixs = "[0, 1, 1, 0, 1, 0]"])
       (simp add: spawn_def request_ops_def post_def url_map_def view_ops_def exec_at_def
          form_get_def form_get_default_def store_simps)
qed (simp_all add: call_inv_def finished_def)

text \<open>C16. Two concurrent speech captures can leave a record that mixes the two calls:
  the number of the second caller with the speech of the first. Neither order of
  handling the two requests one after the other produces it.\<close>

theorem concurrent_screens_mix_callers:
  "\<exists>c. cstep\<^sup>*\<^sup>* (spawn latest_call_init
          [post ''/screen'' [(''From'', ''+15550001''), (''SpeechResult'', ''Alice calling'')],
           post ''/screen'' [(''From'', ''+15550002''), (''SpeechResult'', ''Bob here'')]]) c
     \<and> finished c
     \<and> sh_store c = \<lparr>lc_from = Some ''+15550002'', lc_speech = Some ''Alice calling'', lc_status = Waiting\<rparr>
     \<and> sh_store c \<noteq> fst (serve env latest_call_init
          [post ''/screen'' [(''From'', ''+15550001''), (''SpeechResult'', ''Alice calling'')],
           post ''/screen'' [(''From'', ''+15550002''), (''SpeechResult'', ''Bob here'')]])
     \<and> sh_store c \<noteq> fst (serve env latest_call_init
          [post ''/screen'' [(''From'', ''+15550002''), (''SpeechResult'', ''Bob here'')],
           post ''/screen'' [(''From'', ''+15550001''), (''SpeechResult'', ''Alice calling'')]])"
proof -
  let ?c = "\<lparr>sh_store = \<lparr>lc_from = Some ''+15550002'', lc_speech = Some ''Alice calling'', lc_status = Waiting\<rparr>,
             sh_threads = [[], []], sh_reads = []\<rparr>"
  have "cstep\<^sup>*\<^sup>* (spawn latest_call_init
      [post ''/screen'' [(''From'', ''+15550001''), (''SpeechResult'', ''Alice calling'')],
       post ''/screen'' [(''From'', ''+15550002''), (''SpeechResult'', ''Bob here'')]]) ?c"
    by (rule run_sched_star [where ixs = "[0, 1, 1, 0, 1, 0]"])
       (simp add: spawn_def request_ops_def post_def url_map_def view_ops_def exec_at_def
          form_get_def form_get_default_def store_simps)
  moreover have "finished ?c" by (simp add: finished_def)
  moreover have "sh_store ?c = \<lparr>lc_from = Some ''+15550002'', lc_speech = Some ''Alice calling'',
      lc_status = Waiting\<rparr>" by simp
  moreover have "sh_store ?c \<noteq> fst (serve env latest_call_init
          [post ''/screen'' [(''From'', ''+15550001''), (''SpeechResult'', ''Alice calling'')],
           post ''/screen'' [(''From'', ''+15550002''), (''SpeechResult'', ''Bob here'')]])"
    by (simp add: screener_simps form_get_def form_get_default_def)
  moreover have "sh_store ?c \<noteq> fst (serve env latest_call_init
          [post ''/screen'' [(''From'', ''+15550002''), (''SpeechResult'', ''Bob here'')],
           post ''/screen'' [(''From'', ''+15550001''), (''SpeechResult'', ''Alice calling'')]])"
    by (simp add: screener_simps form_get_def form_get_default_def)
  ultimately show ?thesis by blast
qed


section \<open>Accesses per request\<close>

text \<open>C23. A request touches the record at most once, except a dispatched speech
  capture, \<open>POST /screen\<close>, which touches it three times (from, speech, status).\<close>

theorem request_access_bound:
  "if req_method r = POST \<and> req_path r = ''/screen'' then length (request_ops r) = 3
   else length (request_ops r) \<le> 1"
  by (auto simp: request_ops_def url_map_def view_ops_def split: endpoint.splits)

section \<open>A single writer with concurrent readers\<close>

text \<open>When every thread but one only reads, the writer's operations run in order and
  each read observes the record after some prefix of them.\<close>

lemma single_writer_reads:
  assumes "cstep\<^sup>*\<^sup>* c0 c" and "i < length (sh_threads c0)"
    and "\<forall>j < length (sh_threads c0). j \<noteq> i \<longrightarrow> read_only (sh_threads c0 ! j)"
  shows "\<exists>k \<le> length (sh_threads c0 ! i).
           sh_threads c ! i = drop k (sh_threads c0 ! i)
         \<and> sh_store c = fold (\<lambda>op st. apply_op st op) (take k (sh_threads c0 ! i)) (sh_store c0)
         \<and> length (sh_threads c) = length (sh_threads c0)
         \<and> (\<forall>j < length (sh_threads c). j \<noteq> i \<longrightarrow> read_only (sh_threads c ! j))
         \<and> (\<forall>r \<in> set (sh_reads c). r \<in> set (sh_reads c0)
              \<or> (\<exists>k' \<le> k. r = fold (\<lambda>op st. apply_op st op) (take k' (sh_threads c0 ! i)) (sh_store c0)))"
  using assms(1)
proof (induction rule: rtranclp_induct)
  case base
  with assms(3) show ?case by (intro exI [of _ 0]) simp
next
  case (step c1 c2)
  let ?w = "sh_threads c0 ! i"
  let ?f = "\<lambda>k. fold (\<lambda>op st. apply_op st op) (take k ?w) (sh_store c0)"
  from step.IH obtain k where k: "k \<le> length ?w" "sh_threads c1 ! i = drop k ?w"
    "sh_store c1 = ?f k" "length (sh_threads c1) = length (sh_threads c0)"
    and ro: "\<forall>j < length (sh_threads c1). j \<noteq> i \<longrightarrow> read_only (sh_threads c1 ! j)"
    and rd: "\<forall>r \<in> set (sh_reads c1). r \<in> set (sh_reads c0) \<or> (\<exists>k' \<le> k. r = ?f k')"
    by blast
  from step.hyps(2) obtain i' op rest where
    i': "i' < length (sh_threads c1)" "sh_threads c1 ! i' = op # rest"
    and c2: "sh_store c2 = apply_op (sh_store c1) op" "sh_threads c2 = (sh_threads c1)[i' := rest]"
      "sh_reads c2 = sh_reads c1 @ (if op = ReadRecord then [sh_store c1] else [])"
    by (auto elim!: cstepE)
  show ?case
  proof (cases "i' = i")
    case True
    from k(2) i'(2) True have dk: "drop k ?w = op # rest" by simp
    then have kw: "k < length ?w" by (metis drop_all list.distinct(1) not_le)
    from dk kw have op: "?w ! k = op" and rest: "rest = drop (Suc k) ?w"
      by (simp_all add: Cons_nth_drop_Suc [symmetric])
    have st2: "sh_store c2 = ?f (Suc k)"
      using kw op by (simp add: c2(1) k(3) take_Suc_conv_app_nth)
    have t2: "sh_threads c2 ! i = drop (Suc k) ?w"
      using i' True by (simp add: c2(2) rest)
    have ro2: "\<forall>j < length (sh_threads c2). j \<noteq> i \<longrightarrow> read_only (sh_threads c2 ! j)"
      using ro True by (simp add: c2(2))
    have rd2: "\<forall>r \<in> set (sh_reads c2). r \<in> set (sh_reads c0) \<or> (\<exists>k' \<le> Suc k. r = ?f k')"
      using rd by (auto simp: c2(3) k(3) split: if_splits intro: le_SucI)
    from kw st2 t2 ro2 rd2 k(4) show ?thesis
      by (intro exI [of _ "Suc k"]) (simp add: c2(2))
  next
    case False
    with ro i' have "read_only (op # rest)" by (metis False)
    then have op: "op = ReadRecord" and ro_rest: "read_only rest" by (simp_all add: read_only_def)
    have t2: "sh_threads c2 ! i = drop k ?w" using False k(2) by (simp add: c2(2))
    have ro2: "\<forall>j < length (sh_threads c2). j \<noteq> i \<longrightarrow> read_only (sh_threads c2 ! j)"
      using ro ro_rest i'(1) by (auto simp: c2(2) nth_list_update)
    have rd2: "\<forall>r \<in> set (sh_reads c2). r \<in> set (sh_reads c0) \<or> (\<exists>k' \<le> k. r = ?f k')"
      using rd by (auto simp: c2(3) k(3) op)
    from k(1,3,4) t2 ro2 rd2 show ?thesis
      by (intro exI [of _ k]) (simp add: c2(1,2) op)
  qed
qed

lemma spawn_screen_poll:
  "spawn st [post ''/screen'' f, get ''/status'']
     = \<lparr>sh_store = st, sh_threads = [view_ops EScreen f, [ReadRecord]], sh_reads = []\<rparr>"
  by (simp add: spawn_def request_ops_def post_def get_def url_map_def view_ops_def)

lemma fold_take_screen_ops:
  "k \<le> 3 \<Longrightarrow> fold (\<lambda>op st. apply_op st op) (take k (view_ops EScreen f)) st
     \<in> {st, set_from (form_get f ''From'') st,
         set_speech (Some (form_get_default f ''SpeechResult'' ''No speech detected'')) (set_from (form_get f ''From'') st),
         fst (screen f st)}"
proof -
  assume "k \<le> 3"
  then consider "k = 0" | "k = 1" | "k = 2" | "k = 3" by linarith
  then show ?thesis
    by cases (simp_all add: view_ops_def numeral_eq_Suc screen_def)
qed

lemma screen_poll_reads:
  assumes c: "cstep\<^sup>*\<^sup>* (spawn st [post ''/screen'' f, get ''/status'']) c" and r: "r \<in> set (sh_reads c)"
  shows "\<exists>k' \<le> 3. r = fold (\<lambda>op st. apply_op st op) (take k' (view_ops EScreen f)) st"
proof -
  have ro: "\<forall>j < length (sh_threads (spawn st [post ''/screen'' f, get ''/status''])). j \<noteq> 0 \<longrightarrow>
      read_only (sh_threads (spawn st [post ''/screen'' f, get ''/status'']) ! j)"
    by (auto simp: spawn_screen_poll read_only_def less_Suc_eq)
  have "length (view_ops EScreen f) = 3" by (simp add: view_ops_def)
  with single_writer_reads [OF c _ ro] r show ?thesis
    by (simp add: spawn_screen_poll) (meson order_trans)
qed

lemma screen_poll_observable:
  "\<exists>c. run_sched (spawn st [post ''/screen'' f, get ''/status'']) ixs = Some c \<and> r \<in> set (sh_reads c)
   \<Longrightarrow> \<exists>c. cstep\<^sup>*\<^sup>* (spawn st [post ''/screen'' f, get ''/status'']) c \<and> r \<in> set (sh_reads c)"
  by (blast dest: run_sched_star)

text \<open>C14. What a status poll running beside a speech capture can observe, over all
  schedules: exactly the record before the capture, the record after each of its three
  stores, and nothing else. The two middle records are the torn ones: the new number
  with the old speech, and the new number and speech with the old status.\<close>

theorem poll_during_screen_observes:
  "{r. \<exists>c. cstep\<^sup>*\<^sup>* (spawn st [post ''/screen'' f, get ''/status'']) c \<and> r \<in> set (sh_reads c)}
   = {st, set_from (form_get f ''From'') st,
      set_speech (Some (form_get_default f ''SpeechResult'' ''No speech detected'')) (set_from (form_get f ''From'') st),
      fst (screen f st)}"
  (is "?obs = ?four")
proof
  show "?obs \<subseteq> ?four"
    using screen_poll_reads fold_take_screen_ops by blast
next
  have "st \<in> ?obs"
    using screen_poll_observable [of st f "[1]"] by (simp add: spawn_screen_poll exec_at_def view_ops_def)
  moreover have "set_from (form_get f ''From'') st \<in> ?obs"
    using screen_poll_observable [of st f "[0, 1]"] by (simp add: spawn_screen_poll exec_at_def view_ops_def)
  moreover have "set_speech (Some (form_get_default f ''SpeechResult'' ''No speech detected''))
      (set_from (form_get f ''From'') st) \<in> ?obs"
    using screen_poll_observable [of st f "[0, 0, 1]"] by (simp add: spawn_screen_poll exec_at_def view_ops_def)
  moreover have "fst (screen f st) \<in> ?obs"
    using screen_poll_observable [of st f "[0, 0, 0, 1]"]
    by (simp add: spawn_screen_poll exec_at_def view_ops_def screen_def)
  ultimately show "?four \<subseteq> ?obs" by blast
qed

end
