(* ===== verification/Dashboard.thy ===== *)
theory Dashboard
  imports App
begin

text \<open>
  The operator dashboard served at \<open>/\<close> (\<open>src/main.py\<close>, lines 84-118): a page
  with two text spans, initially \<open>None\<close> and \<open>Waiting...\<close>, a script that fetches
  \<open>/status\<close> every second and writes \<open>data.from || "None"\<close> and
  \<open>data.speech || "Waiting..."\<close> into the spans, and two buttons that \<open>POST\<close> to
  \<open>/connect\<close> and \<open>/reject\<close> with no body and then show an alert. The browser's
  state is the text of the two spans; a browser event is a poll or a click; the
  provider's webhooks are further events on the same server. The alerts show a fixed
  text whatever the response (\<open>ui_alert\<close>).
\<close>

section \<open>The page script\<close>

record dashboard =
  shown_from :: string
  shown_speech :: string

definition dashboard_init :: dashboard where
  "dashboard_init = \<lparr>shown_from = ''None'', shown_speech = ''Waiting...''\<rparr>"

text \<open>\<open>x || d\<close> assigned to \<open>innerText\<close>, for a member \<open>x\<close> of the parsed JSON:
  a missing member (\<open>undefined\<close>), \<open>null\<close> and the empty string are falsy; an object
  is truthy and shows as \<open>[object Object]\<close>.\<close>

fun js_or_text :: "json option \<Rightarrow> string \<Rightarrow> string" where
  "js_or_text None d = d"
| "js_or_text (Some JNull) d = d"
| "js_or_text (Some (JString s)) d = (if s = [] then d else s)"
| "js_or_text (Some (JObject kvs)) d = ''[object Object]''"

definition fetch_status :: "json \<Rightarrow> dashboard \<Rightarrow> dashboard" where
  "fetch_status data d =
     d\<lparr>shown_from := js_or_text (json_member data ''from'') ''None'',
       shown_speech := js_or_text (json_member data ''speech'') ''Waiting...''\<rparr>"

text \<open>The requests the page sends: the poll and the two buttons.\<close>

definition poll_request :: request where
  "poll_request = get ''/status''"

definition connect_click_request :: request where
  "connect_click_request = post ''/connect'' []"

definition reject_click_request :: request where
  "reject_click_request = post ''/reject'' []"

section \<open>Browser and server together\<close>

datatype ui_event = Poll | ClickConnect | ClickReject | Provider request

text \<open>A poll whose response is not JSON makes \<open>res.json()\<close> reject; the spans keep
  their text.\<close>

fun ui_step :: "environ \<Rightarrow> call_state \<times> dashboard \<Rightarrow> ui_event \<Rightarrow> call_state \<times> dashboard" where
  "ui_step env (st, d) Poll =
     (case handle_request env st poll_request of
        (st', JsonResponse j) \<Rightarrow> (st', fetch_status j d)
      | (st', resp) \<Rightarrow> (st', d))"
| "ui_step env (st, d) ClickConnect = (fst (handle_request env st connect_click_request), d)"
| "ui_step env (st, d) ClickReject = (fst (handle_request env st reject_click_request), d)"
| "ui_step env (st, d) (Provider r) = (fst (handle_request env st r), d)"

definition ui_run :: "environ \<Rightarrow> call_state \<times> dashboard \<Rightarrow> ui_event list \<Rightarrow> call_state \<times> dashboard" where
  "ui_run env s evs = fold (\<lambda>e s. ui_step env s e) evs s"

text \<open>What the spans show for a field of the record.\<close>

definition shown_text :: "string option \<Rightarrow> string \<Rightarrow> string" where
  "shown_text v d = (case v of None \<Rightarrow> d | Some s \<Rightarrow> if s = [] then d else s)"

text \<open>The alert each button shows once its \<open>fetch\<close> has resolved, which it does for
  every HTTP answer, error statuses included: a fixed text, whatever the server
  answered.\<close>

fun ui_alert :: "ui_event \<Rightarrow> string option" where
  "ui_alert ClickConnect = Some ''Call connected to Steve.''"
| "ui_alert ClickReject = Some ''Call rejected.''"
| "ui_alert e = None"

section \<open>Lemmas\<close>

lemma ui_step_Poll [simp]:
  "ui_step env (st, d) Poll =
     (st, d\<lparr>shown_from := shown_text (lc_from st) ''None'',
            shown_speech := shown_text (lc_speech st) ''Waiting...''\<rparr>)"
  by (cases "lc_from st"; cases "lc_speech st")
     (simp_all add: poll_request_def screener_simps fetch_status_def get_status_def
        json_member_def shown_text_def)

declare ui_step.simps(1-3) [simp del]

lemma ui_step_clicks [simp]:
  "ui_step env (st, d) ClickConnect = (set_status Answered st, d)"
  "ui_step env (st, d) ClickReject = (set_status Rejected st, d)"
  by (simp_all add: ui_step.simps connect_click_request_def reject_click_request_def screener_simps)

lemma ui_run_simps [simp]:
  "ui_run env s [] = s"
  "ui_run env s (e # evs) = ui_run env (ui_step env s e) evs"
  by (simp_all add: ui_run_def)

section \<open>Properties of the dashboard\<close>

text \<open>C18. After the provider posts a speech capture, the next poll shows the caller's
  number and what they said (an empty value shows the placeholder text instead).\<close>

theorem dashboard_shows_screened_call:
  "snd (ui_run env (st, d) [Provider (post ''/screen'' [(''SpeechResult'', sp), (''From'', fr)]), Poll])
   = \<lparr>shown_from = (if fr = [] then ''None'' else fr),
      shown_speech = (if sp = [] then ''Waiting...'' else sp)\<rparr>"
  by (cases d) (simp add: screener_simps form_get_def form_get_default_def shown_text_def)

text \<open>The buttons reach the decision handlers: after a click on Connect the
  record's status is \<open>answered\<close>, after a click on Reject it is \<open>rejected\<close>, and
  the spans are untouched.\<close>

theorem dashboard_buttons_decide:
  "ui_run env (st, d) [ClickConnect] = (st\<lparr>lc_status := Answered\<rparr>, d)
   \<and> ui_run env (st, d) [ClickReject] = (st\<lparr>lc_status := Rejected\<rparr>, d)"
  by (simp add: store_simps)

text \<open>The dashboard never shows the status: what a poll displays does not depend
  on it, so after a click the operator sees no sign of the decision.\<close>

theorem dashboard_display_ignores_status:
  "snd (ui_step env (st\<lparr>lc_status := s\<rparr>, d) Poll) = snd (ui_step env (st, d) Poll)"
  by simp

end
