(* ===== verification/Provider.thy ===== *)
theory Provider
  imports App
begin

text \<open>
  The telephony provider executing the documents of the call flow, as the
  specification describes it (sections 4.1-4.3 and 6): the provider posts \<open>/voice\<close>
  when a call arrives and executes the document it gets verb by verb. \<open>Say\<close> is
  heard, \<open>Pause\<close> holds the caller, \<open>Hangup\<close> and \<open>Reject\<close> end the call, \<open>Dial\<close>
  bridges the call and then goes on with the next verb. A \<open>Gather\<close> plays its nested
  verbs and listens: when the caller speaks, the provider posts the speech and the
  caller's number to the \<open>Gather\<close>'s action and executes the document of that
  answer instead of the rest; when the caller is silent for the timeout, it goes on
  with the next verb. A document that runs out of verbs ends the call, and an answer
  that is not a document (an HTTP error) ends it with the provider's error message.
  The provider is not code of this repository; this model is its environment, and
  each verb executed costs one unit of fuel.
\<close>

section \<open>Calls\<close>

text \<open>What the caller does at each \<open>Gather\<close>.\<close>

datatype caller_act = Speaks string | Silent

text \<open>What happens on the call, in order.\<close>

datatype call_event =
    Heard string
  | Held nat
  | Webhook string
  | Dialled "string option"
  | CallEnded
  | CallRejected
  | AppError nat

fun nested_events :: "verb list \<Rightarrow> call_event list" where
  "nested_events [] = []"
| "nested_events (Say s # vs) = Heard s # nested_events vs"
| "nested_events (Pause k # vs) = Held k # nested_events vs"
| "nested_events (v # vs) = nested_events vs"

definition callback_form :: "string option \<Rightarrow> string \<Rightarrow> form" where
  "callback_form fr sp =
     (''SpeechResult'', sp) # (case fr of None \<Rightarrow> [] | Some n \<Rightarrow> [(''From'', n)])"

definition method_of :: "string \<Rightarrow> http_method" where
  "method_of m = (if m = ''GET'' then GET else POST)"

fun run_doc ::
  "nat \<Rightarrow> environ \<Rightarrow> string option \<Rightarrow> voice_response \<Rightarrow> caller_act list \<Rightarrow> call_state
   \<Rightarrow> (call_state \<times> call_event list) option" where
  "run_doc 0 env fr doc acts st = None"
| "run_doc (Suc n) env fr [] acts st = Some (st, [CallEnded])"
| "run_doc (Suc n) env fr (Say s # vs) acts st =
     map_option (\<lambda>(st', evs). (st', Heard s # evs)) (run_doc n env fr vs acts st)"
| "run_doc (Suc n) env fr (Pause k # vs) acts st =
     map_option (\<lambda>(st', evs). (st', Held k # evs)) (run_doc n env fr vs acts st)"
| "run_doc (Suc n) env fr (Hangup # vs) acts st = Some (st, [CallEnded])"
| "run_doc (Suc n) env fr (Reject # vs) acts st = Some (st, [CallRejected])"
| "run_doc (Suc n) env fr (Dial c ns # vs) acts st =
     map_option (\<lambda>(st', evs). (st', map (\<lambda>nn. case nn of Number x \<Rightarrow> Dialled x) ns @ evs))
       (run_doc n env fr vs acts st)"
| "run_doc (Suc n) env fr (Gather inp act meth t body # vs) acts st =
     map_option (\<lambda>(st', evs). (st', nested_events body @ evs))
       (case acts of
          Speaks sp # later \<Rightarrow>
            (case handle_request env st
                    \<lparr>req_method = method_of meth, req_path = act, req_form = callback_form fr sp\<rparr> of
               (st1, TwimlResponse doc') \<Rightarrow>
                 map_option (\<lambda>(st', evs). (st', Webhook act # evs)) (run_doc n env fr doc' later st1)
             | (st1, resp) \<Rightarrow> Some (st1, [Webhook act, AppError 500]))
        | _ \<Rightarrow> map_option (\<lambda>(st', evs). (st', Held t # evs)) (run_doc n env fr vs (drop 1 acts) st))"

text \<open>An incoming call: the provider posts \<open>/voice\<close> with the call's form.\<close>

definition place_call ::
  "nat \<Rightarrow> environ \<Rightarrow> call_state \<Rightarrow> form \<Rightarrow> caller_act list \<Rightarrow> (call_state \<times> call_event list) option" where
  "place_call n env st f acts =
     (case handle_request env st (post ''/voice'' f) of
        (st1, TwimlResponse doc) \<Rightarrow> run_doc n env (form_get f ''From'') doc acts st1
      | (st1, HttpError k) \<Rightarrow> Some (st1, [AppError k])
      | (st1, resp) \<Rightarrow> Some (st1, [AppError 500]))"

definition webhooks :: "call_event list \<Rightarrow> string list" where
  "webhooks evs = concat (map (\<lambda>e. case e of Webhook p \<Rightarrow> [p] | _ \<Rightarrow> []) evs)"

definition dials :: "call_event list \<Rightarrow> string option list" where
  "dials evs = concat (map (\<lambda>e. case e of Dialled x \<Rightarrow> [x] | _ \<Rightarrow> []) evs)"

definition held_time :: "call_event list \<Rightarrow> nat" where
  "held_time evs = sum_list (map (\<lambda>e. case e of Held k \<Rightarrow> k | _ \<Rightarrow> 0) evs)"

section \<open>Fuel\<close>

text \<open>More fuel never changes the outcome of a call.\<close>

lemma run_doc_mono:
  "run_doc n env fr doc acts st = Some r \<Longrightarrow> run_doc (Suc n) env fr doc acts st = Some r"
proof (induction n env fr doc acts st arbitrary: r rule: run_doc.induct)
  case (8 n env fr inp act meth t body vs acts st)
  then show ?case
    by (auto split: list.splits caller_act.splits prod.splits http_response.splits)
qed auto

lemma run_doc_mono_le:
  "n \<le> m \<Longrightarrow> run_doc n env fr doc acts st = Some r \<Longrightarrow> run_doc m env fr doc acts st = Some r"
  by (induction m rule: dec_induct) (auto intro: run_doc_mono)

lemma place_call_mono_le:
  "n \<le> m \<Longrightarrow> place_call n env st f acts = Some r \<Longrightarrow> place_call m env st f acts = Some r"
  by (auto simp: place_call_def intro: run_doc_mono_le split: prod.splits http_response.splits)

section \<open>The documents of the call flow, executed\<close>

lemma run_doc_hold:
  "run_doc (Suc (Suc (Suc n))) env fr (snd (screen f st)) acts st'
     = Some (st', [Heard ''Thank you. Please hold.'', Held 10, CallEnded])"
  by (simp add: screener_simps)

lemma run_doc_screening:
  "run_doc 4 env fr screening_document acts st =
     (case acts of
        Speaks sp # later \<Rightarrow>
          Some (fst (screen (callback_form fr sp) st),
                [Heard screening_prompt, Webhook ''/screen'', Heard ''Thank you. Please hold.'', Held 10, CallEnded])
      | _ \<Rightarrow> Some (st, [Heard screening_prompt, Held 5, Heard ''No response received. Goodbye.'', CallEnded]))"
proof -
  have h: "handle_request env st \<lparr>req_method = method_of ''POST'', req_path = ''/screen'', req_form = g\<rparr>
      = (fst (screen g st), TwimlResponse (snd (screen g st)))" for g st
    using handle_request_routes(2) [of env st g] by (simp add: method_of_def post_def)
  show ?thesis
  proof (cases acts)
    case Nil
    then show ?thesis by (simp add: screening_document_def numeral_eq_Suc)
  next
    case (Cons a later)
    then show ?thesis
      by (cases a) (simp_all add: screening_document_def h run_doc_hold numeral_eq_Suc)
  qed
qed

text \<open>With four units of fuel every call ends, whatever the caller does, and what the
  caller experiences does not depend on the record.\<close>

lemma call_flow_fuel_4:
  "\<exists>st' evs. place_call 4 env st f acts = Some (st', evs)
     \<and> last evs \<in> {CallEnded, CallRejected, AppError 500}
     \<and> set (webhooks evs) \<subseteq> {''/screen''} \<and> length (webhooks evs) \<le> 1
     \<and> dials evs = [] \<and> held_time evs \<le> 10
     \<and> (\<forall>st2. \<exists>st2'. place_call 4 env st2 f acts = Some (st2', evs))"
proof (cases "voice f")
  case (Inl exc)
  then show ?thesis by (simp add: place_call_def screener_simps webhooks_def dials_def held_time_def)
next
  case (Inr doc)
  then consider "doc = [Reject]" | "doc = screening_document"
    by (auto simp: voice_cases split: option.splits if_splits)
  then show ?thesis
  proof cases
    case 1
    with Inr show ?thesis
      by (simp add: place_call_def screener_simps webhooks_def dials_def held_time_def numeral_eq_Suc)
  next
    case 2
    from Inr 2 have v: "voice f = Inr screening_document" by simp
    show ?thesis
    proof (cases acts)
      case Nil
      then show ?thesis
        by (simp add: place_call_def screener_simps v run_doc_screening webhooks_def dials_def held_time_def)
    next
      case (Cons a later)
      then show ?thesis
        by (cases a) (simp_all add: place_call_def screener_simps v run_doc_screening webhooks_def dials_def
            held_time_def)
    qed
  qed
qed

end
