(* ===== verification/Contracts.thy ===== *)
theory Contracts
  imports Provider
begin

text \<open>
  The contracts between the service and the two clients of its responses. The
  provider reads the call-control documents: it accepts the verbs of the vocabulary of
  the spec (section 6) with \<open>Say\<close> and \<open>Pause\<close> nested in a \<open>Gather\<close>, a \<open>Gather\<close>
  whose input mode, method and timeout it knows, and a \<open>Dial\<close> with something to
  dial; and it posts a gathered speech to the \<open>Gather\<close>'s action. The dashboard script
  reads the \<open>/status\<close> JSON: an object with members \<open>from\<close>, \<open>speech\<close> (strings or
  \<open>null\<close>) and \<open>status\<close> (one of the three status strings; spec 3, 4.4). The
  predicates below state these contracts; the lemmas show that every response of
  \<open>handle_request\<close> meets them, and that the provider's callback reaches the
  speech-capture view.
\<close>

section \<open>The provider's contract\<close>

fun nested_in_gather :: "verb \<Rightarrow> bool" where
  "nested_in_gather (Say s) = True"
| "nested_in_gather (Pause n) = True"
| "nested_in_gather v = False"

text \<open>A callback is served when the application routes its path to a view that accepts
  the method the provider will use.\<close>

definition routed :: "http_method \<Rightarrow> string \<Rightarrow> bool" where
  "routed m p = (case map_of url_map p of None \<Rightarrow> False | Some (e, ms) \<Rightarrow> m \<in> set ms)"

text \<open>A number the provider can dial: configured and not empty.\<close>

definition dialable :: "string option \<Rightarrow> bool" where
  "dialable x = (case x of None \<Rightarrow> False | Some s \<Rightarrow> s \<noteq> [])"

fun verb_ok :: "verb \<Rightarrow> bool" where
  "verb_ok (Gather inp act meth t body) =
     (inp \<in> set [''speech'', ''dtmf'', ''dtmf speech''] \<and> meth \<in> set [''GET'', ''POST''] \<and> 0 < t
      \<and> list_all nested_in_gather body \<and> routed (method_of meth) act)"
| "verb_ok (Dial c ns) = (ns \<noteq> [] \<and> list_all (\<lambda>n. case n of Number x \<Rightarrow> dialable x) ns)"
| "verb_ok v = True"

definition twiml_ok :: "voice_response \<Rightarrow> bool" where
  "twiml_ok doc \<longleftrightarrow> list_all verb_ok doc"

section \<open>The dashboard's contract\<close>

fun json_str_or_null :: "json \<Rightarrow> bool" where
  "json_str_or_null JNull = True"
| "json_str_or_null (JString s) = True"
| "json_str_or_null (JObject kvs) = False"

fun status_json_ok :: "json \<Rightarrow> bool" where
  "status_json_ok (JObject [(k1, f), (k2, s), (k3, JString v)]) =
     (k1 = ''from'' \<and> k2 = ''speech'' \<and> k3 = ''status'' \<and> json_str_or_null f \<and> json_str_or_null s
      \<and> v \<in> set [''waiting'', ''answered'', ''rejected''])"
| "status_json_ok j = False"

fun response_ok :: "http_response \<Rightarrow> bool" where
  "response_ok (TwimlResponse doc) = twiml_ok doc"
| "response_ok (JsonResponse j) = status_json_ok j"
| "response_ok r = True"

section \<open>Lemmas\<close>

lemma status_json_ok_get_status: "status_json_ok (get_status st)"
  by (cases "lc_from st"; cases "lc_speech st"; cases "lc_status st") (simp_all add: get_status_def)

lemma twiml_ok_voice: "voice f = Inr doc \<Longrightarrow> twiml_ok doc"
  by (auto simp: voice_def twiml_ok_def routed_def url_map_def method_of_def split: option.splits if_splits)

lemma twiml_ok_connect: "twiml_ok (snd (connect_call env st)) \<longleftrightarrow> dialable (env ''STEVE_PHONE_NUMBER'')"
  by (simp add: connect_call_def twiml_ok_def)

lemma response_ok_run_view:
  "dialable (env ''STEVE_PHONE_NUMBER'') \<Longrightarrow> response_ok (snd (run_view env st e f))"
proof (cases e)
  case EVoice
  then show ?thesis
    by (cases "voice f") (auto simp: run_view_def twiml_ok_voice)
next
  case EConnect
  then show "dialable (env ''STEVE_PHONE_NUMBER'') \<Longrightarrow> ?thesis"
    using twiml_ok_connect [of env st] by (simp add: run_view_def split_beta)
qed (simp_all add: run_view_def split_beta screen_def reject_call_def twiml_ok_def
      status_json_ok_get_status)

lemma gather_targets_voice: "voice f = Inr doc \<Longrightarrow> set (gather_targets doc) \<subseteq> {(''/screen'', ''POST'', 5)}"
  by (auto simp: voice_def split: option.splits if_splits)

lemma gather_targets_run_view:
  "case snd (run_view env st e f) of
     TwimlResponse doc \<Rightarrow> set (gather_targets doc) \<subseteq> {(''/screen'', ''POST'', 5)} | _ \<Rightarrow> True"
proof (cases e)
  case EVoice
  then show ?thesis
    by (cases "voice f") (auto simp: run_view_def dest: gather_targets_voice)
qed (simp_all add: run_view_def split_beta screen_def connect_call_def reject_call_def)

lemma gather_targets_handle_request:
  assumes "snd (handle_request env st r) = TwimlResponse doc"
  shows "set (gather_targets doc) \<subseteq> {(''/screen'', ''POST'', 5)}"
proof (cases "map_of url_map (req_path r)")
  case None
  with assms show ?thesis by (simp add: handle_request_def)
next
  case (Some a)
  obtain e ms where a: "a = (e, ms)" by fastforce
  obtain st' resp where rv: "run_view env st e (req_form r) = (st', resp)" by fastforce
  from assms Some a rv have "resp = TwimlResponse doc"
    by (auto simp: handle_request_def split: if_splits http_response.splits)
  with gather_targets_run_view [of env st e "req_form r"] rv show ?thesis by simp
qed

text \<open>C24. Every response is well formed for its reader exactly when the number to
  dial is configured: a call-control document uses the provider's verbs, nests only
  \<open>Say\<close> and \<open>Pause\<close> in a \<open>Gather\<close> whose input mode, method and timeout the
  provider knows and whose action the application serves with that method, and dials
  only configured, non-empty numbers; a JSON answer follows the status schema the
  dashboard reads. With \<open>STEVE_PHONE_NUMBER\<close> unset or empty, \<open>/connect\<close> answers
  a \<open>Dial\<close> with nothing to dial.\<close>

theorem responses_well_typed:
  "(\<forall>r. response_ok (snd (handle_request env st r))) \<longleftrightarrow> dialable (env ''STEVE_PHONE_NUMBER'')"
proof
  assume "\<forall>r. response_ok (snd (handle_request env st r))"
  then have "response_ok (snd (handle_request env st (post ''/connect'' [])))" ..
  then show "dialable (env ''STEVE_PHONE_NUMBER'')"
    by (simp add: handle_request_routes twiml_ok_connect)
next
  assume d: "dialable (env ''STEVE_PHONE_NUMBER'')"
  show "\<forall>r. response_ok (snd (handle_request env st r))"
    using response_ok_run_view [of env, OF d]
    by (auto simp: handle_request_def split: option.splits prod.splits http_response.splits)
qed

text \<open>C25. The provider's callbacks reach the speech-capture handler: every
  \<open>Gather\<close> of every document the service answers posts, with method \<open>POST\<close>, to a
  path that the application dispatches to \<open>screen\<close>, with the provider's form and
  against the record as it then is.\<close>

theorem gather_callbacks_reach_screen:
  "case snd (handle_request env st r) of
     TwimlResponse doc \<Rightarrow>
       list_all (\<lambda>(act, meth, t). meth = ''POST'' \<and>
         (\<forall>st' f. handle_request env' st' (post act f) = (fst (screen f st'), TwimlResponse (snd (screen f st')))))
         (gather_targets doc)
   | _ \<Rightarrow> True"
proof (cases "snd (handle_request env st r)")
  case (TwimlResponse doc)
  then have "set (gather_targets doc) \<subseteq> {(''/screen'', ''POST'', 5)}"
    by (rule gather_targets_handle_request)
  with TwimlResponse show ?thesis
    by (auto simp: list_all_iff handle_request_routes)
qed simp_all

end
