(* ===== verification/Logging.thy ===== *)
theory Logging
  imports App
begin

text \<open>
  The lines the views print to standard output (\<open>src/main.py\<close>, lines 20, 23 and
  45): \<open>voice\<close> prints the incoming caller before its spam test and a second line when
  it rejects; \<open>screen\<close> prints what the caller said. An f-string renders Python's
  \<open>None\<close> as \<open>None\<close>. A request's log is the lines its view prints; a request Flask
  answers without a view prints nothing, and a \<open>HEAD\<close> request runs the view and
  prints as a \<open>GET\<close> does.
\<close>

section \<open>Printed lines\<close>

definition py_format_opt :: "string option \<Rightarrow> string" where
  "py_format_opt v = (case v of None \<Rightarrow> ''None'' | Some s \<Rightarrow> s)"

definition voice_log :: "form \<Rightarrow> string list" where
  "voice_log f =
     (let from_number = form_get f ''From'';
          caller_name = form_get_default f ''CallerName'' ''Unknown''
      in (''Incoming call from: '' @ py_format_opt from_number @ '' ('' @ caller_name @ '')'') #
         (case from_number of
            None \<Rightarrow> []
          | Some n \<Rightarrow>
              if py_startswith n ''+100'' \<or> py_in ''VOIP'' (py_upper caller_name)
              then [''Rejected likely spam or VOIP caller.''] else []))"

definition screen_log :: "form \<Rightarrow> string list" where
  "screen_log f = [''Caller said: '' @ form_get_default f ''SpeechResult'' ''No speech detected'']"

definition view_log :: "endpoint \<Rightarrow> form \<Rightarrow> string list" where
  "view_log e f = (case e of EVoice \<Rightarrow> voice_log f | EScreen \<Rightarrow> screen_log f | _ \<Rightarrow> [])"

definition request_log :: "request \<Rightarrow> string list" where
  "request_log r =
     (case map_of url_map (req_path r) of
        None \<Rightarrow> []
      | Some (e, ms) \<Rightarrow>
          if req_method r \<in> set (rule_methods ms) \<and> req_method r \<noteq> OPTIONS
          then view_log e (req_form r) else [])"

section \<open>Lemmas\<close>

lemma spam_line_voice_log:
  "''Rejected likely spam or VOIP caller.'' \<in> set (voice_log f) \<longleftrightarrow> voice f = Inr [Reject]"
  by (auto simp: voice_log_def voice_def py_format_opt_def split: option.splits)

lemma spam_line_view_log:
  "''Rejected likely spam or VOIP caller.'' \<in> set (view_log e f) \<longleftrightarrow>
     snd (run_view env st e f) = TwimlResponse [Reject]"
  by (cases e) (auto simp: view_log_def screen_log_def run_view_def split_beta spam_line_voice_log
      screen_def connect_call_def reject_call_def split: sum.splits)

lemma voice_500_log:
  "voice f = Inl exc \<Longrightarrow>
     voice_log f = [''Incoming call from: None ('' @ form_get_default f ''CallerName'' ''Unknown'' @ '')'']"
  by (auto simp: voice_log_def voice_def py_format_opt_def split: option.splits if_splits)

lemma run_view_error:
  "snd (run_view env st e f) = HttpError n \<Longrightarrow> e = EVoice \<and> (\<exists>exc. voice f = Inl exc)"
  by (cases e) (auto simp: run_view_def split_beta split: sum.splits)

lemma head_views_silent:
  "map_of url_map p = Some (e, ms) \<Longrightarrow> HEAD \<in> set (rule_methods ms) \<Longrightarrow>
     view_log e f = [] \<and> (\<forall>n. snd (run_view env st e f) \<noteq> HttpError n)"
  by (auto simp: url_map_def rule_methods_def view_log_def run_view_def split: if_splits)

text \<open>C40. The log agrees with the responses: the spam line is printed exactly for the
  requests answered with a \<open>Reject\<close> document, and a request answered with a 500
  (a call without \<open>From\<close>) has printed only the incoming-call line, with the caller
  rendered as \<open>None\<close>, before the view raised.\<close>

theorem log_matches_response:
  "(''Rejected likely spam or VOIP caller.'' \<in> set (request_log r)
      \<longleftrightarrow> snd (handle_request env st r) = TwimlResponse [Reject])
   \<and> (snd (handle_request env st r) = HttpError 500 \<longrightarrow>
      request_log r = [''Incoming call from: None ('' @ form_get_default (req_form r) ''CallerName'' ''Unknown'' @ '')''])"
proof (cases "map_of url_map (req_path r)")
  case None
  then show ?thesis by (simp add: request_log_def handle_request_def)
next
  case (Some a)
  obtain e ms where a: "a = (e, ms)" by fastforce
  let ?f = "req_form r"
  show ?thesis
  proof (cases "req_method r \<in> set (rule_methods ms) \<and> req_method r \<noteq> OPTIONS")
    case False
    with Some a show ?thesis by (auto simp: request_log_def handle_request_def)
  next
    case True
    then have log: "request_log r = view_log e ?f" using Some a by (simp add: request_log_def)
    show ?thesis
    proof (cases "req_method r = HEAD")
      case True
      with Some a \<open>req_method r \<in> set (rule_methods ms) \<and> req_method r \<noteq> OPTIONS\<close>
      have "view_log e ?f = [] \<and> (\<forall>n. snd (run_view env st e ?f) \<noteq> HttpError n)"
        by (auto dest: head_views_silent)
      with Some a True log show ?thesis
        by (auto simp: handle_request_def split: prod.splits http_response.splits)
    next
      case False
      with Some a \<open>req_method r \<in> set (rule_methods ms) \<and> req_method r \<noteq> OPTIONS\<close>
      have resp: "snd (handle_request env st r) = snd (run_view env st e ?f)"
        by (simp add: handle_request_def)
      have "snd (run_view env st e ?f) = HttpError 500 \<Longrightarrow>
          view_log e ?f = [''Incoming call from: None ('' @ form_get_default ?f ''CallerName'' ''Unknown'' @ '')'']"
        by (auto dest!: run_view_error simp: view_log_def voice_500_log)
      with resp log show ?thesis by (simp add: spam_line_view_log)
    qed
  qed
qed

theorem log_matches_response_witness:
  "request_log (post ''/voice'' [(''CallerName'', ''ACME VOIP'')]) = [''Incoming call from: None (ACME VOIP)'']"
proof -
  have "snd (handle_request Map.empty latest_call_init (post ''/voice'' [(''CallerName'', ''ACME VOIP'')]))
      = HttpError 500"
    by (simp add: screener_simps voice_def form_get_def)
  then show ?thesis
    using log_matches_response [of "post ''/voice'' [(''CallerName'', ''ACME VOIP'')]" Map.empty latest_call_init]
    by (simp add: post_def form_get_default_def)
qed

end
