(* ===== verification/Spec2Isabelle.thy ===== *)
theory Spec2Isabelle
  imports Concurrency Dashboard Contracts Logging Provider
begin

text \<open>
  \<^bold>\<open>A verification development of the call-screening webhook service.\<close>

  \<^bold>\<open>The program.\<close> \<open>src/main.py\<close> is a Flask application for a telephony
  provider (Twilio). The provider posts to \<open>/voice\<close> when a call arrives; the view
  rejects likely spam (a \<open>From\<close> number starting with \<open>+100\<close>, or a
  \<open>CallerName\<close> containing \<open>VOIP\<close> in any case) or answers with a speech
  \<open>Gather\<close> whose callback is \<open>/screen\<close>. \<open>/screen\<close> stores the caller's number
  and words in the one shared dictionary \<open>latest_call\<close> and holds the caller
  (\<open>Pause\<close> of 10 seconds). An operator's browser polls \<open>/status\<close> (the dictionary
  as JSON) every second from the page at \<open>/\<close> and posts \<open>/connect\<close> (status
  \<open>answered\<close>, \<open>Dial\<close> the configured number) or \<open>/reject\<close> (status
  \<open>rejected\<close>, goodbye and \<open>Hangup\<close>). The server is threaded; nothing guards
  the dictionary.

  \<^bold>\<open>The library, in import order.\<close>
  \<^item> \<open>Prelude\<close>: the named collections \<open>screener_simps\<close> (equations of the views
    and routes) and \<open>store_simps\<close> (the dictionary stores); the types \<open>form\<close>
    (werkzeug's \<open>MultiDict\<close>, an association list read with \<open>map_of\<close>, first value
    wins) and \<open>environ\<close> (\<open>os.environ.get\<close> as a partial map); generic lemmas on
    association lists and on lists of threads updated at an index.
  \<^item> \<open>PyStr\<close>: \<open>str.startswith\<close> (\<open>py_startswith\<close>), \<open>needle in hay\<close>
    (\<open>py_in\<close>) and \<open>str.upper\<close> (\<open>py_upper\<close>, the ASCII part of CPython's table),
    related to the library's \<open>prefix\<close> and \<open>sublist\<close> so that the spam test of
    \<open>voice\<close> can be stated with them (\<open>voice_cases\<close>).
  \<^item> \<open>CallState\<close>: \<open>latest_call\<close> (lines 7-12) as the record \<open>call_state\<close> with
    the status enumeration \<open>call_status\<close>; its three single-key stores
    \<open>set_from\<close>, \<open>set_speech\<close>, \<open>set_status\<close>, through which every handler and
    every thread step writes.
  \<^item> \<open>TwiML\<close>: the documents the views build with \<open>VoiceResponse\<close>, \<open>Gather\<close> and
    \<open>Dial\<close>, as lists of \<open>verb\<close>s with the source's attributes.
  \<^item> \<open>Json\<close>: the JSON values \<open>/status\<close> produces and the page reads.
  \<^item> \<open>Handlers\<close>: the views \<open>voice\<close> (lines 15-37; \<open>py_exc + voice_response\<close>, the
    \<open>AttributeError\<close> of \<open>None.startswith\<close> included), \<open>screen\<close> (40-55, its three
    stores in source order), \<open>connect_call\<close> (58-65), \<open>reject_call\<close> (68-74) and
    \<open>get_status\<close> (77-79). Properties C1-C6.
  \<^item> \<open>App\<close>: Flask's dispatch: the URL map of the six routes, \<open>rule_methods\<close> (the
    \<open>HEAD\<close> and \<open>OPTIONS\<close> Flask adds), \<open>run_view\<close>, \<open>handle_request\<close> with its
    404/405/500 answers, \<open>serve\<close> for requests handled one after the other, and the
    inductive set \<open>reachable\<close> of records. Properties C7-C13: the status contract of
    the specification (section 8), which requests write, the 500 of a call without
    \<open>From\<close>, and the exact set of reachable records (\<open>call_inv\<close>), by rule induction
    and an explicit construction.
  \<^item> \<open>Concurrency\<close>: the threaded server. Each request is a thread of atomic
    dictionary operations (\<open>view_ops\<close>, \<open>request_ops\<close>) in statement order;
    \<open>cstep\<close> runs the next operation of any thread; \<open>run_sched\<close> is an executable
    scheduler driven by a list of thread indices, reaching exactly what \<open>cstep\<close>
    reaches (\<open>run_sched_iff_star\<close>). C14: with one writer and concurrent readers,
    each read observes the writer's record after a prefix of its stores
    (\<open>single_writer_reads\<close>), so a poll beside a speech capture observes exactly four
    records over all schedules. C15: the invariant \<open>conc_inv\<close> holds along every
    interleaving and gives back \<open>call_inv\<close> when all threads are done. C16, C17: two
    concrete schedules show a record that mixes two calls and a read that no
    sequential run produces. C23: only \<open>POST /screen\<close> touches the record more than
    once, exactly three times.
  \<^item> \<open>Dashboard\<close>: the page's script (lines 84-118): \<open>fetch_status\<close> with
    JavaScript's \<open>||\<close> on the parsed JSON (\<open>js_or_text\<close>), the two buttons, and
    \<open>ui_step\<close>, a browser and the server stepped together, and the fixed alert of
    each button (\<open>ui_alert\<close>). C18: a poll after a capture shows the caller's number
    and words, with the placeholders for empty values.
  \<^item> \<open>Provider\<close>: the telephony provider executing documents, the environment of
    the service, modelled from the specification (it is not code of this
    repository): \<open>place_call\<close> posts \<open>/voice\<close> and \<open>run_doc\<close> executes the verbs,
    posting gathered speech (\<open>caller_act\<close>) to the \<open>Gather\<close>'s action through
    \<open>handle_request\<close>; the outcome is the list of \<open>call_event\<close>s. Fuel counts
    executed verbs, and more fuel never changes an outcome (\<open>run_doc_mono_le\<close>).
  \<^item> \<open>Contracts\<close>: what the two readers of the responses expect, as predicates. The
    provider: the verbs of the specification's vocabulary, \<open>Say\<close> and \<open>Pause\<close>
    nested in a \<open>Gather\<close> with a known input mode, method and positive timeout whose
    action the application serves with that method (\<open>routed\<close>), and a \<open>Dial\<close>
    whose numbers are configured and non-empty (\<open>dialable\<close>); the dashboard: the
    status schema. C24: every response meets them exactly when
    \<open>STEVE_PHONE_NUMBER\<close> is configured. C25: every \<open>Gather\<close> posts back to a path
    the application dispatches to \<open>screen\<close>.
  \<^item> \<open>Logging\<close>: the \<open>print\<close> calls of \<open>voice\<close> and \<open>screen\<close> (lines 20, 23,
    45) per dispatched request, with the f-string rendering of \<open>None\<close>. C26: the log
    agrees with the responses (spam line exactly for \<open>Reject\<close>; a 500 prints only
    the incoming-call line with \<open>None\<close>).
  \<^item> This theory: a decoder of the status JSON (the abstract view of \<open>get_status\<close>)
    and the properties that cross components: C19 (a concurrent poll makes the page
    show one caller's number beside another's words), C20 (round trip of the status
    JSON), C21 (a whole screened call through \<open>/voice\<close>, its gather callback and
    \<open>/connect\<close>), C22 (executed by the provider, every call ends after at most one
    callback, to \<open>/screen\<close>, at most 10 seconds on hold and never dialled, whatever
    the record holds, so the operator's decision cannot reach it).

  \<^bold>\<open>Bounds and fuel.\<close> There are no loops in the program; every definition of the
  program is structural (\<open>fun\<close> or non-recursive definitions), so it needs no fuel.
  The scheduler \<open>run_sched\<close> recurses on its list of indices. A request has at most
  three accesses to the record (C23). The provider model runs on fuel, one unit per
  executed verb: the longest call flow executes four verbs (the \<open>Gather\<close>, then
  \<open>Say\<close>, \<open>Pause\<close> and the end of the hold document), so four units are enough and
  C22 holds for every fuel of at least four. Python integers appear only as the
  constants 5 and 10 (\<open>nat\<close>).

  \<^bold>\<open>Not modelled.\<close> \<open>app.run\<close>'s socket handling (lines 122-123 only start
  the server); the XML text the Twilio library serialises (the verbs and attributes are
  modelled, the serialiser is library code); provider behaviour beyond the
  specification (its console wiring, which the specification leaves outside the code,
  and the timing of speech recognition); the static HTML layout of the page beyond its
  two spans and two buttons; the Unicode case mapping of \<open>str.upper\<close> beyond ASCII:
  characters are 8-bit here, and in Python a few other characters upper-case into the
  marker (the dotless i, U+0131, into \<open>I\<close>), so the model rejects VOIP names spelled in
  ASCII (C2) and says nothing about other spellings.

  \<^bold>\<open>Findings.\<close> \<open>voice\<close> raises (HTTP 500) when \<open>From\<close> is missing, even for a
  VOIP display name (C3, C12), where the specification asks for a non-matching prefix
  test; concurrent \<open>/screen\<close> requests can store one caller's number with another's
  speech (C16), a poll can read a half-written record (C14, C17) and the page then
  shows one caller's number with another's words (C19); the dashboard never shows the
  decision (\<open>dashboard_display_ignores_status\<close>) and shows an empty utterance as
  \<open>Waiting...\<close> (C18); with \<open>STEVE_PHONE_NUMBER\<close> unset \<open>/connect\<close> answers a
  \<open>Dial\<close> with nothing to dial (C24); the \<open>Dial\<close> that \<open>/connect\<close> answers goes to
  the dashboard's \<open>fetch\<close>, which discards it, and no document of the call flow sends
  the held call to \<open>/connect\<close> or \<open>/reject\<close> (C22): within this code, Connect only
  changes the status.

  \<^bold>\<open>Further work.\<close> Calls placed concurrently through the provider model on the
  threaded server: C14, C16 and C19 already give what such a run can do to the shared
  record and the page; a combined model would add the provider's timing, which the
  specification does not fix. The Python string operations stay exact on 8-bit
  characters only (see Not modelled).
\<close>

section \<open>The status JSON, read back\<close>

definition status_of_str :: "string \<Rightarrow> call_status option" where
  "status_of_str s =
     (if s = ''waiting'' then Some Waiting else if s = ''answered'' then Some Answered
      else if s = ''rejected'' then Some Rejected else None)"

definition call_state_of_json :: "json \<Rightarrow> call_state option" where
  "call_state_of_json j =
     (case (json_member j ''from'', json_member j ''speech'', json_member j ''status'') of
        (Some jf, Some js, Some (JString t)) \<Rightarrow>
          (case (opt_of_json jf, opt_of_json js, status_of_str t) of
             (Some f, Some sp, Some s) \<Rightarrow> Some \<lparr>lc_from = f, lc_speech = sp, lc_status = s\<rparr>
           | _ \<Rightarrow> None)
      | _ \<Rightarrow> None)"

lemma status_of_str_status_str: "status_of_str (status_str s) = Some s"
  by (cases s) (simp_all add: status_of_str_def)

text \<open>C20. The status query loses nothing: the JSON it answers reads back as the
  record it was made from, so two different records never give the same answer.\<close>

theorem status_json_roundtrip: "call_state_of_json (get_status st) = Some st"
  by (simp add: call_state_of_json_def get_status_def json_member_def status_of_str_status_str)

section \<open>A screened call from end to end\<close>

text \<open>C21. A caller who passes the spam filter gets the screening document; the
  provider posts the caller's words to the document's gather target; the operator
  clicks Connect. The record then holds the caller's number and words with status
  \<open>answered\<close>, and the last document dials the configured number.\<close>

theorem screening_flow:
  assumes "form_get f ''From'' = Some fr" and "\<not> prefix ''+100'' fr"
    and "\<forall>w. sublist w (form_get_default f ''CallerName'' ''Unknown'') \<longrightarrow> py_upper w \<noteq> ''VOIP''"
    and "gather_targets screening_document = [(act, meth, t)]"
  shows "serve env st [post ''/voice'' f, post act [(''SpeechResult'', sp), (''From'', fr)],
                       post ''/connect'' []]
    = (\<lparr>lc_from = Some fr, lc_speech = Some sp, lc_status = Answered\<rparr>,
       [TwimlResponse screening_document, TwimlResponse [Say ''Thank you. Please hold.'', Pause 10],
        TwimlResponse [Dial (env ''TWILIO_PHONE_NUMBER'') [Number (env ''STEVE_PHONE_NUMBER'')]]])"
proof -
  from assms(4) have "act = ''/screen''" by (simp add: screening_document_shape)
  moreover have "voice f = Inr screening_document" using assms(1-3) by (auto simp: voice_cases)
  ultimately show ?thesis
    by (simp add: screener_simps form_get_def form_get_default_def connect_call_def store_simps)
qed

theorem screening_flow_witness:
  "serve Map.empty latest_call_init
     [post ''/voice'' [(''From'', ''+15551234567''), (''CallerName'', ''Bob'')],
      post ''/screen'' [(''SpeechResult'', ''Hi it's Bob''), (''From'', ''+15551234567'')],
      post ''/connect'' []]
   = (\<lparr>lc_from = Some ''+15551234567'', lc_speech = Some ''Hi it's Bob'', lc_status = Answered\<rparr>,
      [TwimlResponse screening_document, TwimlResponse [Say ''Thank you. Please hold.'', Pause 10],
       TwimlResponse [Dial None [Number None]]])"
proof -
  have "\<forall>w. sublist w ''Bob'' \<longrightarrow> py_upper w \<noteq> ''VOIP''"
    using py_in_upper_iff [of "''VOIP''" "''Bob''"]
    by (simp add: py_upper_char_def ascii_upper_table_def)
  then show ?thesis
    using screening_flow [of "[(''From'', ''+15551234567''), (''CallerName'', ''Bob'')]"
        "''+15551234567''" "''/screen''" "''POST''" 5 Map.empty latest_call_init "''Hi it's Bob''"]
    by (simp add: form_get_def form_get_default_def screening_document_shape)
qed

section \<open>Where the call flow goes\<close>

text \<open>C22. The call flow never reaches the operator's decision, and every call ends.
  Executed by the provider with enough fuel (four verbs), an incoming call ends, hung up,
  rejected or with an application error, whatever the caller does; the only callback
  the provider makes is one \<open>/screen\<close>, nothing is dialled, and the caller is held
  at most 10 seconds (the \<open>Pause\<close> after which the hold document runs out). What the
  caller experiences is the same whatever the record holds, so the operator's
  \<open>/connect\<close> and \<open>/reject\<close>, which only change the record, cannot affect it.\<close>

theorem call_flow_never_reaches_decision:
  assumes "4 \<le> n"
  shows "\<exists>st' evs. place_call n env st f acts = Some (st', evs)
     \<and> last evs \<in> {CallEnded, CallRejected, AppError 500}
     \<and> set (webhooks evs) \<subseteq> {''/screen''} \<and> length (webhooks evs) \<le> 1
     \<and> dials evs = [] \<and> held_time evs \<le> 10
     \<and> (\<forall>st2. \<exists>st2'. place_call n env st2 f acts = Some (st2', evs))"
proof -
  from call_flow_fuel_4 [of env st f acts] obtain st' evs where
    r: "place_call 4 env st f acts = Some (st', evs)"
    and p: "last evs \<in> {CallEnded, CallRejected, AppError 500}"
      "set (webhooks evs) \<subseteq> {''/screen''} \<and> length (webhooks evs) \<le> 1"
      "dials evs = [] \<and> held_time evs \<le> 10"
    and any: "\<forall>st2. \<exists>st2'. place_call 4 env st2 f acts = Some (st2', evs)"
    by blast
  from r assms have "place_call n env st f acts = Some (st', evs)" by (rule place_call_mono_le [rotated])
  moreover from any assms have "\<forall>st2. \<exists>st2'. place_call n env st2 f acts = Some (st2', evs)"
    by (blast intro: place_call_mono_le)
  ultimately show ?thesis using p by blast
qed

theorem call_flow_never_reaches_decision_witness:
  "\<exists>st' evs. place_call 4 Map.empty latest_call_init [(''From'', ''+15551234567''), (''CallerName'', ''Bob'')]
       [Speaks ''Hi it's Bob''] = Some (st', evs)
     \<and> last evs \<in> {CallEnded, CallRejected, AppError 500}
     \<and> set (webhooks evs) \<subseteq> {''/screen''} \<and> length (webhooks evs) \<le> 1
     \<and> dials evs = [] \<and> held_time evs \<le> 10
     \<and> (\<forall>st2. \<exists>st2'. place_call 4 Map.empty st2 [(''From'', ''+15551234567''), (''CallerName'', ''Bob'')]
            [Speaks ''Hi it's Bob''] = Some (st2', evs))"
  by (rule call_flow_never_reaches_decision) simp

section \<open>What the operator sees under concurrency\<close>


end
